theory Spec2Isabelle
  imports Complex_Main
begin

section \<open>Numbers and profile configuration\<close>

text \<open>
  JavaScript numbers are modelled as real numbers: the arithmetic of the geometry engine
  is read as exact arithmetic, and \<open>Math.PI\<close> is the real number \<open>pi\<close>.
  Millimetre inputs are scaled to metres with the factor \<open>mm = 0.001\<close>, as every
  function of \<open>profileSystem.ts\<close> does.
\<close>

definition mm :: real where
  "mm = 0.001"

text \<open>\<open>x || d\<close> on numbers: the default is taken when \<open>x\<close> is falsy, that is 0.\<close>

definition orDefault :: "real \<Rightarrow> real \<Rightarrow> real" where
  "orDefault x d = (if x = 0 then d else x)"

record ProfileConfig =
  profileKey :: string
  width :: real
  depth :: real
  glassRebateDepth :: real
  sightline :: real

section \<open>Glass depth position (profileSystem.ts)\<close>

definition calculateGlassZPosition :: "ProfileConfig \<Rightarrow> real \<Rightarrow> real" where
  "calculateGlassZPosition profileConfig glassThicknessMm =
     (let frameDepth = orDefault (depth profileConfig) 70 * mm;
          thickness = glassThicknessMm * mm;
          sashZOffset = - frameDepth * 0.15;
          sashDepth = frameDepth * 0.6;
          glassZ = sashZOffset - sashDepth * 0.5 + thickness / 2
      in glassZ)"

definition calculateGlassFrontZPosition :: "ProfileConfig \<Rightarrow> real \<Rightarrow> real" where
  "calculateGlassFrontZPosition profileConfig glassThicknessMm =
     (let thickness = glassThicknessMm * mm;
          glassZ = calculateGlassZPosition profileConfig glassThicknessMm
      in glassZ + thickness / 2)"

section \<open>Profile cross-sections and extrusion (profileSystem.ts)\<close>

type_synonym vec2 = "real \<times> real"
type_synonym vec3 = "real \<times> real \<times> real"

text \<open>
  A \<open>THREE.Shape\<close> built with \<open>moveTo\<close>/\<open>lineTo\<close> is the list of its points.
  A \<open>THREE.ExtrudeGeometry\<close> without bevel sweeps the shape, which lies in the local
  XY plane, along local +Z from 0 to the given depth; its vertices are the points of the
  shape at \<open>z = 0\<close> and at \<open>z = depth\<close>.
\<close>

record ExtrudeGeometry =
  shape :: "vec2 list"
  extrudeDepth :: real

definition extrudeVertices :: "ExtrudeGeometry \<Rightarrow> vec3 list" where
  "extrudeVertices g =
     map (\<lambda>(x, y). (x, y, 0)) (shape g) @ map (\<lambda>(x, y). (x, y, extrudeDepth g)) (shape g)"

definition createLShapeProfileCrossSection :: "real \<Rightarrow> real \<Rightarrow> vec2 list" where
  "createLShapeProfileCrossSection totalWidth totalDepth =
     (let w = totalWidth * mm;
          d = totalDepth * mm;
          rebateWidth = w * 0.3;
          rebateDepth = d * 0.3
      in [(0, 0), (w, 0), (w, d - rebateDepth), (w - rebateWidth, d - rebateDepth),
          (w - rebateWidth, d), (0, d), (0, 0)])"

text \<open>The four segments are returned in the order bottom, top, left, right.\<close>

definition createFrameFromProfile :: "real \<Rightarrow> real \<Rightarrow> real \<Rightarrow> real \<Rightarrow> ExtrudeGeometry list" where
  "createFrameFromProfile outerWidth outerHeight profileWidth profileDepth =
     (let w = outerWidth * mm;
          h = outerHeight * mm;
          pw = profileWidth * mm;
          lProfile = createLShapeProfileCrossSection profileWidth profileDepth;
          bottomGeo = \<lparr>shape = lProfile, extrudeDepth = w - 2 * pw\<rparr>;
          topGeo = \<lparr>shape = lProfile, extrudeDepth = w - 2 * pw\<rparr>;
          leftGeo = \<lparr>shape = lProfile, extrudeDepth = h\<rparr>;
          rightGeo = \<lparr>shape = lProfile, extrudeDepth = h\<rparr>
      in [bottomGeo, topGeo, leftGeo, rightGeo])"

section \<open>Placement of the outer frame segments (Window.tsx)\<close>

datatype Segment = Bottom | Top | Left | Right

record SegmentTransform =
  groupPosition :: vec3
  meshRotation :: vec3
  meshPosition :: vec3
  meshScale :: "vec3 option"

definition getFrameSegmentTransform ::
    "Segment \<Rightarrow> real \<Rightarrow> real \<Rightarrow> real \<Rightarrow> real \<Rightarrow> SegmentTransform" where
  "getFrameSegmentTransform segment w h d pw =
     (case segment of
        Bottom \<Rightarrow>
          \<lparr>groupPosition = (- w / 2 + pw, - h / 2, - d),
           meshRotation = (- pi / 2, pi / 2, pi),
           meshPosition = (0, 0, d / 2),
           meshScale = None\<rparr>
      | Top \<Rightarrow>
          \<lparr>groupPosition = (- w / 2 + pw, h / 2, - d),
           meshRotation = (- pi / 2, - pi / 2, pi),
           meshPosition = (w - 2 * pw, 0, d / 2),
           meshScale = None\<rparr>
      | Left \<Rightarrow>
          \<lparr>groupPosition = (- w / 2, - h / 2, - d),
           meshRotation = (pi / 2, 0, 0),
           meshPosition = (0, h, d / 2),
           meshScale = Some (1, 1, 1)\<rparr>
      | Right \<Rightarrow>
          \<lparr>groupPosition = (w / 2, - h / 2 - h, - d),
           meshRotation = (- pi / 2, 0, pi),
           meshPosition = (0, h, d / 2),
           meshScale = Some (1, 1, 1)\<rparr>)"

text \<open>
  The scene graph of the renderer (three.js, an external library): a mesh with a scale,
  an Euler rotation (order XYZ, the library's default) and a position sits inside a
  group that has a position only. The rotation matrix is the one that the library's
  \<open>Matrix4.makeRotationFromEuler\<close> builds for the order XYZ.
\<close>

definition eulerRotate :: "vec3 \<Rightarrow> vec3 \<Rightarrow> vec3" where
  "eulerRotate r v =
     (case r of (rx, ry, rz) \<Rightarrow> case v of (x, y, z) \<Rightarrow>
        (let a = cos rx; b = sin rx; c = cos ry; d = sin ry; e = cos rz; f = sin rz
         in (c * e * x - c * f * y + d * z,
             (a * f + b * e * d) * x + (a * e - b * f * d) * y - b * c * z,
             (b * f - a * e * d) * x + (b * e + a * f * d) * y + a * c * z)))"

definition vadd :: "vec3 \<Rightarrow> vec3 \<Rightarrow> vec3" where
  "vadd p q = (case p of (px, py, pz) \<Rightarrow> case q of (qx, qy, qz) \<Rightarrow> (px + qx, py + qy, pz + qz))"

definition vscale :: "vec3 \<Rightarrow> vec3 \<Rightarrow> vec3" where
  "vscale s v = (case s of (sx, sy, sz) \<Rightarrow> case v of (x, y, z) \<Rightarrow> (sx * x, sy * y, sz * z))"

definition vdist :: "vec3 \<Rightarrow> vec3 \<Rightarrow> real" where
  "vdist p q =
     (case p of (px, py, pz) \<Rightarrow> case q of (qx, qy, qz) \<Rightarrow>
        sqrt ((px - qx)\<^sup>2 + (py - qy)\<^sup>2 + (pz - qz)\<^sup>2))"

text \<open>
  World position of a local vertex of a segment's geometry, as the JSX of the outer
  frame nests it: \<open>group position\<close> / \<open>mesh position, rotation, scale\<close>, with
  \<open>transform.meshScale || [1, 1, 1]\<close>.
\<close>

definition placeVertex :: "SegmentTransform \<Rightarrow> vec3 \<Rightarrow> vec3" where
  "placeVertex t v =
     vadd (groupPosition t)
       (vadd (meshPosition t)
          (eulerRotate (meshRotation t)
             (vscale (case meshScale t of None \<Rightarrow> (1, 1, 1) | Some s \<Rightarrow> s) v)))"

text \<open>
  The outer frame as \<open>DynamicWindow\<close> renders it for a window of \<open>widthMm\<close> by
  \<open>heightMm\<close> and a profile of the given width and depth (all in millimetres): the
  geometry of segment number \<open>idx\<close> of \<open>createFrameFromProfile\<close> under the transform of
  the segment of that index, which is computed from the same dimensions in metres.
\<close>

definition segmentOrder :: "Segment list" where
  "segmentOrder = [Bottom, Top, Left, Right]"

definition segmentIndex :: "Segment \<Rightarrow> nat" where
  "segmentIndex segment = (case segment of Bottom \<Rightarrow> 0 | Top \<Rightarrow> 1 | Left \<Rightarrow> 2 | Right \<Rightarrow> 3)"

definition outerFrameTransform :: "Segment \<Rightarrow> real \<Rightarrow> real \<Rightarrow> real \<Rightarrow> real \<Rightarrow> SegmentTransform" where
  "outerFrameTransform segment widthMm heightMm profileWidth profileDepth =
     getFrameSegmentTransform segment (widthMm * 0.001) (heightMm * 0.001)
       (profileDepth * 0.001) (profileWidth * 0.001)"

definition outerFrameSegmentVertices :: "Segment \<Rightarrow> real \<Rightarrow> real \<Rightarrow> real \<Rightarrow> real \<Rightarrow> vec3 list" where
  "outerFrameSegmentVertices segment widthMm heightMm profileWidth profileDepth =
     map (placeVertex (outerFrameTransform segment widthMm heightMm profileWidth profileDepth))
       (extrudeVertices
          (createFrameFromProfile widthMm heightMm profileWidth profileDepth ! segmentIndex segment))"

definition outerFrameVertices :: "real \<Rightarrow> real \<Rightarrow> real \<Rightarrow> real \<Rightarrow> vec3 list" where
  "outerFrameVertices widthMm heightMm profileWidth profileDepth =
     concat (map (\<lambda>segment.
         outerFrameSegmentVertices segment widthMm heightMm profileWidth profileDepth)
       segmentOrder)"

text \<open>Back and front of the placed outer frame: the least and greatest world z.\<close>

definition frameBack :: "real \<Rightarrow> real \<Rightarrow> real \<Rightarrow> real \<Rightarrow> real" where
  "frameBack widthMm heightMm profileWidth profileDepth =
     Min (set (map (\<lambda>(x, y, z). z) (outerFrameVertices widthMm heightMm profileWidth profileDepth)))"

definition frameFront :: "real \<Rightarrow> real \<Rightarrow> real \<Rightarrow> real \<Rightarrow> real" where
  "frameFront widthMm heightMm profileWidth profileDepth =
     Max (set (map (\<lambda>(x, y, z). z) (outerFrameVertices widthMm heightMm profileWidth profileDepth)))"

section \<open>Profile library, profile choice and opening kinds (constants.ts, Window.tsx)\<close>

definition PROFILE_LIBRARY :: "string \<rightharpoonup> ProfileConfig" where
  "PROFILE_LIBRARY = map_of
     [(''minimal'',
         \<lparr>profileKey = ''minimal'', width = 40, depth = 50,
          glassRebateDepth = 15, sightline = 25\<rparr>),
      (''modern-slim'',
         \<lparr>profileKey = ''modern-slim'', width = 60, depth = 70,
          glassRebateDepth = 18, sightline = 35\<rparr>),
      (''modern-wide'',
         \<lparr>profileKey = ''modern-wide'', width = 80, depth = 82,
          glassRebateDepth = 22, sightline = 45\<rparr>),
      (''traditional'',
         \<lparr>profileKey = ''traditional'', width = 100, depth = 90,
          glassRebateDepth = 25, sightline = 55\<rparr>)]"

text \<open>
  A choice read with \<open>parseInt\<close> is an integer or \<open>NaN\<close>; \<open>NaN\<close> is \<open>None\<close>.
  Indexing an array literal with a number that is not one of its indices (also \<open>NaN\<close>)
  gives \<open>undefined\<close>, here \<open>None\<close>.
\<close>

definition jsIndex :: "'a list \<Rightarrow> int option \<Rightarrow> 'a option" where
  "jsIndex xs i =
     (case i of
        None \<Rightarrow> None
      | Some k \<Rightarrow> if 0 \<le> k \<and> k < int (length xs) then Some (xs ! nat k) else None)"

definition profileKeys :: "string list" where
  "profileKeys = [''minimal'', ''modern-slim'', ''modern-wide'', ''traditional'']"

definition profileKeyOf :: "int option \<Rightarrow> string" where
  "profileKeyOf profileChoice =
     (case jsIndex profileKeys (map_option (\<lambda>c. c - 1) profileChoice) of
        Some k \<Rightarrow> k
      | None \<Rightarrow> ''modern-slim'')"

definition profileConfigOf :: "int option \<Rightarrow> ProfileConfig option" where
  "profileConfigOf profileChoice = PROFILE_LIBRARY (profileKeyOf profileChoice)"

datatype OpeningType = Fixed | Kipp | DrehLinks | DrehRechts | DrehKippLinks | DrehKippRechts

definition openingTypes :: "OpeningType list" where
  "openingTypes = [Fixed, Kipp, DrehLinks, DrehRechts, DrehKippLinks, DrehKippRechts]"

text \<open>
  \<open>Array.from({ length: windowType }, (_, i) => ...)\<close> over the three sash choices; a
  sash index beyond the three choices reads \<open>undefined\<close>, whose difference with 1 is
  \<open>NaN\<close>.
\<close>

definition openingConfigs :: "nat \<Rightarrow> int option \<Rightarrow> int option \<Rightarrow> int option \<Rightarrow> OpeningType list" where
  "openingConfigs windowType sash1OpeningChoice sash2OpeningChoice sash3OpeningChoice =
     (let sashChoices = [sash1OpeningChoice, sash2OpeningChoice, sash3OpeningChoice]
      in map (\<lambda>i.
           case jsIndex openingTypes
                  (map_option (\<lambda>c. c - 1) (if i < length sashChoices then sashChoices ! i else None))
           of Some t \<Rightarrow> t | None \<Rightarrow> Fixed)
         [0..<windowType])"

section \<open>Mullion (Pfosten) requirements (Window.tsx)\<close>

datatype error = TypeError

text \<open>
  The body of the loop of \<open>pfostenNeeds\<close> for one boundary: the automatic rule and
  the manual setting (0 = auto, 1 = no, 2 = yes).
\<close>

definition pfostenRequired :: "OpeningType \<Rightarrow> OpeningType \<Rightarrow> int \<Rightarrow> bool" where
  "pfostenRequired leftSash rightSash manualSetting =
     (let leftNeedsRight =
            (leftSash = Fixed \<or> leftSash = Kipp \<or> leftSash = DrehRechts
             \<or> leftSash = DrehKippLinks \<or> leftSash = DrehKippRechts);
          rightNeedsLeft =
            (rightSash = Fixed \<or> rightSash = Kipp \<or> rightSash = DrehLinks
             \<or> rightSash = DrehKippLinks \<or> rightSash = DrehKippRechts);
          required = (leftNeedsRight \<or> rightNeedsLeft)
      in if manualSetting = 1 then False
         else if manualSetting = 2 then True
         else required)"

text \<open>
  The loop runs over the boundaries \<open>0 .. windowType - 2\<close> and reads the configs of
  both neighbours; reading \<open>.type\<close> of a missing config would raise a TypeError.
\<close>

definition pfostenNeeds :: "nat \<Rightarrow> OpeningType list \<Rightarrow> int \<Rightarrow> int \<Rightarrow> error + bool list" where
  "pfostenNeeds windowType configs pfosten1Choice pfosten2Choice =
     (if windowType \<le> 1 \<or> windowType \<le> length configs
      then Inr (map (\<lambda>i. pfostenRequired (configs ! i) (configs ! (i + 1))
                           (if i = 0 then pfosten1Choice else pfosten2Choice))
                  [0..<windowType - 1])
      else Inl TypeError)"

section \<open>Sash state, animation and toggling (Window.tsx)\<close>

datatype SashMode = dreh | kipp

text \<open>
  The three state arrays of \<open>DynamicWindow\<close> are JavaScript arrays: an element may be
  a hole (\<open>None\<close>), reading past the end gives \<open>undefined\<close> (\<open>None\<close>), and writing
  past the end extends the array, leaving holes in between. The callbacks that
  \<open>setTimeout\<close> has scheduled and that have not run yet are kept in \<open>reopenTimeouts\<close>,
  oldest first (all have the same delay of 50 ms).
\<close>

definition jsGet :: "'a option list \<Rightarrow> nat \<Rightarrow> 'a option" where
  "jsGet xs i = (if i < length xs then xs ! i else None)"

definition jsSet :: "'a option list \<Rightarrow> nat \<Rightarrow> 'a \<Rightarrow> 'a option list" where
  "jsSet xs i v =
     (if i < length xs then xs[i := Some v]
      else xs @ replicate (i - length xs) None @ [Some v])"

record SashState =
  sashOpenStates :: "bool option list"
  sashRotations :: "real option list"
  sashModes :: "SashMode option list"
  reopenTimeouts :: "nat list"

text \<open>The callback of \<open>sashOpenStates.map\<close> in \<open>useFrame\<close>: the target of one sash.\<close>

definition targetRotation :: "OpeningType list \<Rightarrow> SashMode option list \<Rightarrow> bool \<Rightarrow> nat \<Rightarrow> real" where
  "targetRotation configs modes isOpen index =
     (if \<not> isOpen then 0
      else case (if index < length configs then Some (configs ! index) else None) of
        None \<Rightarrow> 0
      | Some config \<Rightarrow>
          (let mode = (case jsGet modes index of Some m \<Rightarrow> m | None \<Rightarrow> dreh)
           in case config of
                Fixed \<Rightarrow> 0
              | Kipp \<Rightarrow> pi / 16
              | DrehLinks \<Rightarrow> - pi * 0.6
              | DrehRechts \<Rightarrow> pi * 0.6
              | DrehKippLinks \<Rightarrow> if mode = kipp then pi / 16 else - pi * 0.6
              | DrehKippRechts \<Rightarrow> if mode = kipp then pi / 16 else pi * 0.6))"

definition targetRotations :: "OpeningType list \<Rightarrow> SashState \<Rightarrow> real option list" where
  "targetRotations configs st =
     map (\<lambda>index. map_option (\<lambda>isOpen. targetRotation configs (sashModes st) isOpen index)
                    (sashOpenStates st ! index))
       [0..<length (sashOpenStates st)]"

text \<open>The callback of \<open>prev.map\<close> in \<open>useFrame\<close>: one angle, one frame of \<open>delta\<close> seconds.\<close>

definition animateRotation :: "real \<Rightarrow> real \<Rightarrow> real \<Rightarrow> real" where
  "animateRotation delta target current =
     (let diff = target - current
      in if \<bar>diff\<bar> < 0.01 then target else current + diff * delta * 3)"

definition useFrame :: "OpeningType list \<Rightarrow> real \<Rightarrow> SashState \<Rightarrow> SashState" where
  "useFrame configs delta st =
     (if length (sashRotations st) = 0 then st
      else st\<lparr>sashRotations :=
             map (\<lambda>i. map_option
                        (animateRotation delta
                           (case jsGet (targetRotations configs st) i of Some t \<Rightarrow> t | None \<Rightarrow> 0))
                        (sashRotations st ! i))
               [0..<length (sashRotations st)]\<rparr>)"

definition handleSashOpenChange :: "nat \<Rightarrow> bool \<Rightarrow> SashMode \<Rightarrow> SashState \<Rightarrow> SashState" where
  "handleSashOpenChange index isOpen mode st =
     (let currentMode = (case jsGet (sashModes st) index of Some m \<Rightarrow> m | None \<Rightarrow> dreh);
          currentOpen = (case jsGet (sashOpenStates st) index of Some b \<Rightarrow> b | None \<Rightarrow> False)
      in if currentOpen \<and> currentMode \<noteq> mode
         then st\<lparr>sashRotations := jsSet (sashRotations st) index 0,
                 sashModes := jsSet (sashModes st) index mode,
                 sashOpenStates := jsSet (sashOpenStates st) index False,
                 reopenTimeouts := reopenTimeouts st @ [index]\<rparr>
         else st\<lparr>sashOpenStates := jsSet (sashOpenStates st) index isOpen,
                 sashModes := jsSet (sashModes st) index mode\<rparr>)"

text \<open>The oldest scheduled callback of \<open>setTimeout\<close> runs: it sets the open flag.\<close>

definition reopenTimeout :: "SashState \<Rightarrow> SashState" where
  "reopenTimeout st =
     (case reopenTimeouts st of
        [] \<Rightarrow> st
      | index # rest \<Rightarrow>
          st\<lparr>sashOpenStates := jsSet (sashOpenStates st) index True,
             reopenTimeouts := rest\<rparr>)"

text \<open>
  What can happen to the state: a click that calls the handler, an animation frame, or a
  scheduled callback running.
\<close>

datatype Event = Toggle nat bool SashMode | Frame real | Timeout

definition step :: "OpeningType list \<Rightarrow> SashState \<Rightarrow> Event \<Rightarrow> SashState" where
  "step configs st ev =
     (case ev of
        Toggle index isOpen mode \<Rightarrow> handleSashOpenChange index isOpen mode st
      | Frame delta \<Rightarrow> useFrame configs delta st
      | Timeout \<Rightarrow> reopenTimeout st)"

definition run :: "OpeningType list \<Rightarrow> SashState \<Rightarrow> Event list \<Rightarrow> SashState" where
  "run configs st evs = foldl (step configs) st evs"

text \<open>
  The toggle buttons of sash \<open>index\<close> are rendered under the guard
  \<open>showOpeningViz && openingConfigs[index] && openingConfigs[index].type !== "fixed"\<close>.
\<close>

definition toggleRendered :: "bool \<Rightarrow> OpeningType list \<Rightarrow> nat \<Rightarrow> bool" where
  "toggleRendered showOpeningViz configs index =
     (showOpeningViz \<and> index < length configs \<and> configs ! index \<noteq> Fixed)"

section \<open>Sash frames, complete frame and glass panes (profileSystem.ts)\<close>

definition SASH_CLEARANCE :: real where
  "SASH_CLEARANCE = 0.003"

definition createSteppedSashProfileCrossSection :: "real \<Rightarrow> real \<Rightarrow> vec2 list" where
  "createSteppedSashProfileCrossSection totalWidth totalDepth =
     (let sashWidth = totalWidth * mm * 0.7;
          d = totalDepth * mm;
          frontFaceWidth = sashWidth * 0.85;
          backDepth = d * 0.4;
          widthDiff = (sashWidth - frontFaceWidth) / 2
      in [(0, 0), (sashWidth, 0), (sashWidth, backDepth), (sashWidth - widthDiff, backDepth),
          (sashWidth - widthDiff, d), (widthDiff, d), (widthDiff, backDepth), (0, backDepth),
          (0, 0)])"

definition createSashFrame :: "real \<Rightarrow> real \<Rightarrow> ProfileConfig \<Rightarrow> ExtrudeGeometry list" where
  "createSashFrame outerWidth outerHeight profileConfig =
     (let w = outerWidth * mm;
          h = outerHeight * mm;
          outerFrameWidth = orDefault (width profileConfig) 60;
          frameDepth = orDefault (depth profileConfig) 70;
          sashProfileWidth = outerFrameWidth * mm * 0.7;
          clearance = SASH_CLEARANCE;
          actualWidth = w - clearance;
          actualHeight = h - clearance;
          steppedProfile = createSteppedSashProfileCrossSection outerFrameWidth (frameDepth * 0.9);
          bottomGeo = \<lparr>shape = steppedProfile, extrudeDepth = actualWidth - 2 * sashProfileWidth\<rparr>;
          topGeo = \<lparr>shape = steppedProfile, extrudeDepth = actualWidth - 2 * sashProfileWidth\<rparr>;
          leftGeo = \<lparr>shape = steppedProfile, extrudeDepth = actualHeight\<rparr>;
          rightGeo = \<lparr>shape = steppedProfile, extrudeDepth = actualHeight\<rparr>
      in [bottomGeo, topGeo, leftGeo, rightGeo])"

record CompleteFrame =
  outerFrameSegments :: "ExtrudeGeometry list"
  sashFrameSegments :: "ExtrudeGeometry list list"

definition createCompleteFrame :: "real \<Rightarrow> real \<Rightarrow> nat \<Rightarrow> ProfileConfig \<Rightarrow> CompleteFrame" where
  "createCompleteFrame widthMm heightMm paneCount profileConfig =
     (let outerProfileWidth = orDefault (width profileConfig) 60;
          outerProfileDepth = orDefault (depth profileConfig) 70;
          w = widthMm * mm;
          h = heightMm * mm;
          fw = outerProfileWidth * mm;
          innerWidth = w - fw * 2;
          innerHeight = h - fw * 2
      in \<lparr>outerFrameSegments =
             createFrameFromProfile widthMm heightMm outerProfileWidth outerProfileDepth,
           sashFrameSegments =
             (if paneCount = 1
              then [createSashFrame (innerWidth / mm) (innerHeight / mm) profileConfig]
              else (let sashWidth = innerWidth / real paneCount
                    in map (\<lambda>i. createSashFrame (sashWidth / mm) (innerHeight / mm) profileConfig)
                         [0..<paneCount]))\<rparr>)"

text \<open>
  A \<open>THREE.BoxGeometry\<close> of the given width, height and depth, centred on the origin
  and then translated.
\<close>

record BoxGeometry =
  boxWidth :: real
  boxHeight :: real
  boxDepth :: real
  boxTranslation :: vec3

text \<open>
  \<open>openingConfigs?.[i]?.type === "fixed"\<close>: the optional argument may be absent and
  the array may have no entry \<open>i\<close>; both give \<open>false\<close>.
\<close>

definition createGlassPanes ::
    "real \<Rightarrow> real \<Rightarrow> nat \<Rightarrow> ProfileConfig \<Rightarrow> real \<Rightarrow> OpeningType list option \<Rightarrow> BoxGeometry list" where
  "createGlassPanes widthMm heightMm paneCount profileConfig glassThicknessMm configs =
     (let w = widthMm * mm;
          h = heightMm * mm;
          outerFw = orDefault (width profileConfig) 60 * mm;
          thickness = glassThicknessMm * mm;
          sashFw = outerFw * 0.7;
          innerWidth = w - outerFw * 2;
          innerHeight = h - outerFw * 2;
          glassZ = calculateGlassZPosition profileConfig glassThicknessMm;
          isFixedAt = (\<lambda>i. case configs of
                              None \<Rightarrow> False
                            | Some cs \<Rightarrow> i < length cs \<and> cs ! i = Fixed)
      in if paneCount = 1
         then (let isFixed = isFixedAt 0;
                   glassWidth = (if isFixed then innerWidth else innerWidth - sashFw * 2);
                   glassHeight = (if isFixed then innerHeight else innerHeight - sashFw * 2)
               in [\<lparr>boxWidth = glassWidth, boxHeight = glassHeight, boxDepth = thickness,
                    boxTranslation = (0, 0, glassZ)\<rparr>])
         else (let sashWidth = innerWidth / real paneCount
               in map (\<lambda>i.
                    let isFixed = isFixedAt i;
                        glassWidth = (if isFixed then sashWidth else sashWidth - sashFw * 2);
                        glassHeight = (if isFixed then innerHeight else innerHeight - sashFw * 2)
                    in \<lparr>boxWidth = glassWidth, boxHeight = glassHeight, boxDepth = thickness,
                         boxTranslation = (0, 0, glassZ)\<rparr>)
                  [0..<paneCount]))"

section \<open>Rendering of one sash (Window.tsx)\<close>

definition getSashSegmentTransform ::
    "Segment \<Rightarrow> real \<Rightarrow> real \<Rightarrow> real \<Rightarrow> real \<Rightarrow> real \<Rightarrow> SegmentTransform" where
  "getSashSegmentTransform segment sashWidth sashHeight d zOffset sashProfileWidth =
     (let aw = sashWidth - SASH_CLEARANCE;
          ah = sashHeight - SASH_CLEARANCE;
          spw = sashProfileWidth
      in case segment of
           Bottom \<Rightarrow>
             \<lparr>groupPosition = (- aw / 2 + spw, - ah / 2, zOffset),
              meshRotation = (0, - pi / 2, pi / 2),
              meshPosition = (aw - 2 * spw, 0, d / 2),
              meshScale = None\<rparr>
         | Top \<Rightarrow>
             \<lparr>groupPosition = (- aw / 2 + spw, ah / 2 - spw, zOffset),
              meshRotation = (0, - pi / 2, pi / 2),
              meshPosition = (aw - 2 * spw, 0, d / 2),
              meshScale = None\<rparr>
         | Left \<Rightarrow>
             \<lparr>groupPosition = (- aw / 2 + spw, - ah / 2, zOffset),
              meshRotation = (pi / 2, 0, pi),
              meshPosition = (0, ah, d / 2),
              meshScale = None\<rparr>
         | Right \<Rightarrow>
             \<lparr>groupPosition = (aw / 2, - ah / 2, zOffset),
              meshRotation = (pi / 2, 0, pi),
              meshPosition = (0, ah, d / 2),
              meshScale = None\<rparr>)"

text \<open>
  The part of the callback of \<open>frameData.sashFrameSegments.map\<close> that sizes the glass
  of sash \<open>index\<close> and decides whether its sash frame group is rendered:
  \<open>{!isFixed && (<group name="sash-i-frame"> ... )}\<close>, with
  \<open>openingType = openingConfigs[index]?.type || "fixed"\<close>.
\<close>

record SashRender =
  renderedGlassWidth :: real
  renderedGlassHeight :: real
  sashFrameGroup :: "(Segment \<times> SegmentTransform) list option"

definition renderSash ::
    "real \<Rightarrow> real \<Rightarrow> nat \<Rightarrow> ProfileConfig \<Rightarrow> OpeningType list \<Rightarrow> nat \<Rightarrow> SashRender" where
  "renderSash widthCm heightCm windowType profileConfig configs index =
     (let innerWidth = widthCm * 10 * mm - width profileConfig * mm * 2;
          innerHeight = heightCm * 10 * mm - width profileConfig * mm * 2;
          sashWidth = (if windowType = 1 then innerWidth else innerWidth / real windowType);
          openingType = (if index < length configs then configs ! index else Fixed);
          isFixed = (openingType = Fixed);
          sashProfileWidth = width profileConfig * mm * 0.7;
          glassWidth = (if isFixed then sashWidth else sashWidth - sashProfileWidth * 2);
          glassHeight = (if isFixed then innerHeight else innerHeight - sashProfileWidth * 2);
          sashZOffset = depth profileConfig * mm * 0.15
      in \<lparr>renderedGlassWidth = glassWidth,
           renderedGlassHeight = glassHeight,
           sashFrameGroup =
             (if \<not> isFixed
              then Some (map (\<lambda>segment.
                             (segment,
                              getSashSegmentTransform segment sashWidth innerHeight
                                (depth profileConfig * mm * 0.9) sashZOffset sashProfileWidth))
                           segmentOrder)
              else None)\<rparr>)"

section \<open>The placed sash frame and the glass inside it (Window.tsx)\<close>

text \<open>
  The sash frame of sash \<open>index\<close> as it is rendered: segment number \<open>segIdx\<close> of
  \<open>frameData.sashFrameSegments[index]\<close> under the transform of that segment. The
  glass mesh sits in the same group with no transform of its own, so its geometry and
  the placed sash frame share one coordinate system.
\<close>

definition sashFrameVertices ::
    "real \<Rightarrow> real \<Rightarrow> nat \<Rightarrow> ProfileConfig \<Rightarrow> OpeningType list \<Rightarrow> nat \<Rightarrow> vec3 list" where
  "sashFrameVertices widthCm heightCm windowType profileConfig configs index =
     (case sashFrameGroup (renderSash widthCm heightCm windowType profileConfig configs index) of
        None \<Rightarrow> []
      | Some segments \<Rightarrow>
          concat (map (\<lambda>(segment, t).
              map (placeVertex t)
                (extrudeVertices
                   (sashFrameSegments
                      (createCompleteFrame (widthCm * 10) (heightCm * 10) windowType profileConfig)
                    ! index ! segmentIndex segment)))
            segments))"

text \<open>The least and greatest z of the placed sash frame.\<close>

definition sashBack ::
    "real \<Rightarrow> real \<Rightarrow> nat \<Rightarrow> ProfileConfig \<Rightarrow> OpeningType list \<Rightarrow> nat \<Rightarrow> real" where
  "sashBack widthCm heightCm windowType profileConfig configs index =
     Min (set (map (\<lambda>(x, y, z). z)
       (sashFrameVertices widthCm heightCm windowType profileConfig configs index)))"

definition sashFront ::
    "real \<Rightarrow> real \<Rightarrow> nat \<Rightarrow> ProfileConfig \<Rightarrow> OpeningType list \<Rightarrow> nat \<Rightarrow> real" where
  "sashFront widthCm heightCm windowType profileConfig configs index =
     Max (set (map (\<lambda>(x, y, z). z)
       (sashFrameVertices widthCm heightCm windowType profileConfig configs index)))"

text \<open>
  A box geometry is centred on its translation, so along z it reaches from the
  translation minus half its depth to the translation plus half its depth.
\<close>

definition boxBackZ :: "BoxGeometry \<Rightarrow> real" where
  "boxBackZ g = (case boxTranslation g of (x, y, z) \<Rightarrow> z - boxDepth g / 2)"

definition boxFrontZ :: "BoxGeometry \<Rightarrow> real" where
  "boxFrontZ g = (case boxTranslation g of (x, y, z) \<Rightarrow> z + boxDepth g / 2)"

section \<open>Events that the rendered window can produce (Window.tsx)\<close>

text \<open>
  \<open>handleSashOpenChange\<close> is a closure of the component; it is called only from the
  \<open>onOpenChange\<close> callbacks of the buttons of a sash, which are rendered under the
  guard modelled by \<open>toggleRendered\<close>. Animation frames and scheduled callbacks run
  whatever is rendered.
\<close>

definition uiCanProduce :: "bool \<Rightarrow> OpeningType list \<Rightarrow> Event \<Rightarrow> bool" where
  "uiCanProduce showOpeningViz configs ev =
     (case ev of
        Toggle index isOpen mode \<Rightarrow> toggleRendered showOpeningViz configs index
      | Frame delta \<Rightarrow> True
      | Timeout \<Rightarrow> True)"

section \<open>Properties of the glass depth position\<close>

lemma place_sash:
  "placeVertex (getSashSegmentTransform segment sw sh d zOffset spw) (x, y, z)
     = (case segment of
          Bottom \<Rightarrow> ((sw - SASH_CLEARANCE) / 2 - spw - z,
                     - (sh - SASH_CLEARANCE) / 2 + x, zOffset + d / 2 - y)
        | Top \<Rightarrow> ((sw - SASH_CLEARANCE) / 2 - spw - z,
                  (sh - SASH_CLEARANCE) / 2 - spw + x, zOffset + d / 2 - y)
        | Left \<Rightarrow> (- (sw - SASH_CLEARANCE) / 2 + spw - x,
                   (sh - SASH_CLEARANCE) / 2 - z, zOffset + d / 2 - y)
        | Right \<Rightarrow> ((sw - SASH_CLEARANCE) / 2 - x,
                    (sh - SASH_CLEARANCE) / 2 - z, zOffset + d / 2 - y))"
  by (cases segment)
     (simp_all add: placeVertex_def getSashSegmentTransform_def eulerRotate_def vadd_def
        vscale_def Let_def field_simps)

lemma sash_zs_modern_slim:
  "set (map (\<lambda>(x, y, z). z)
      (sashFrameVertices 100 120 1
         \<lparr>profileKey = ''modern-slim'', width = 60, depth = 70,
          glassRebateDepth = 18, sightline = 35\<rparr> [DrehKippLinks] 0))
    = {0.042, 0.0168, - 0.021}"
  by (auto simp add: sashFrameVertices_def renderSash_def Let_def segmentOrder_def
      createCompleteFrame_def createSashFrame_def segmentIndex_def extrudeVertices_def
      createSteppedSashProfileCrossSection_def orDefault_def place_sash mm_def
      SASH_CLEARANCE_def)

lemma sashBack_modern_slim:
  "sashBack 100 120 1
     \<lparr>profileKey = ''modern-slim'', width = 60, depth = 70,
      glassRebateDepth = 18, sightline = 35\<rparr> [DrehKippLinks] 0 = - 0.021"
  unfolding sashBack_def sash_zs_modern_slim by simp

lemma sashFront_modern_slim:
  "sashFront 100 120 1
     \<lparr>profileKey = ''modern-slim'', width = 60, depth = 70,
      glassRebateDepth = 18, sightline = 35\<rparr> [DrehKippLinks] 0 = 0.042"
  unfolding sashFront_def sash_zs_modern_slim by simp

lemma glass_back_modern_slim:
  "boxBackZ (createGlassPanes (100 * 10) (120 * 10) 1
     \<lparr>profileKey = ''modern-slim'', width = 60, depth = 70,
      glassRebateDepth = 18, sightline = 35\<rparr> 24 (Some [DrehKippLinks]) ! 0) = - 0.0315"
  by (simp add: boxBackZ_def createGlassPanes_def Let_def calculateGlassZPosition_def
      orDefault_def mm_def)

text \<open>
  C2. The depth layout places the sash assembly at the positive offset
  \<open>0.15 * profileDepth\<close> and the glass at
  \<open>sashClosedZ - sashDepth/2 + glassThickness/2\<close>, which for the 70 mm profile and
  24 mm glass is 0.0015 m. The code at that input: a one-pane window of 100 by 120 cm
  with a dreh-kipp-links sash. \<open>calculateGlassZPosition\<close> returns -0.0195 m, because it
  takes the sash offset with the opposite sign to the one the sash frame is placed with
  (\<open>sashZOffset\<close> in \<open>renderSash\<close>). The placed sash frame reaches from -0.021 m to
  0.042 m, and the back face of the glass pane lies at -0.0315 m, outside the sash frame
  that the function's comment says the glass is positioned inside.
\<close>

theorem calculateGlassZPosition_glass_behind_sash:
  "calculateGlassZPosition
      \<lparr>profileKey = ''modern-slim'', width = 60, depth = 70,
       glassRebateDepth = 18, sightline = 35\<rparr> 24 = - 0.0195
   \<and> calculateGlassZPosition
      \<lparr>profileKey = ''modern-slim'', width = 60, depth = 70,
       glassRebateDepth = 18, sightline = 35\<rparr> 24
      \<noteq> 0.15 * (70 * 0.001) - (0.6 * (70 * 0.001)) / 2 + (24 * 0.001) / 2
   \<and> sashBack 100 120 1
        \<lparr>profileKey = ''modern-slim'', width = 60, depth = 70,
         glassRebateDepth = 18, sightline = 35\<rparr> [DrehKippLinks] 0 = - 0.021
   \<and> sashFront 100 120 1
        \<lparr>profileKey = ''modern-slim'', width = 60, depth = 70,
         glassRebateDepth = 18, sightline = 35\<rparr> [DrehKippLinks] 0 = 0.042
   \<and> boxBackZ (createGlassPanes (100 * 10) (120 * 10) 1
        \<lparr>profileKey = ''modern-slim'', width = 60, depth = 70,
         glassRebateDepth = 18, sightline = 35\<rparr> 24 (Some [DrehKippLinks]) ! 0) = - 0.0315
   \<and> boxBackZ (createGlassPanes (100 * 10) (120 * 10) 1
        \<lparr>profileKey = ''modern-slim'', width = 60, depth = 70,
         glassRebateDepth = 18, sightline = 35\<rparr> 24 (Some [DrehKippLinks]) ! 0)
      < sashBack 100 120 1
          \<lparr>profileKey = ''modern-slim'', width = 60, depth = 70,
           glassRebateDepth = 18, sightline = 35\<rparr> [DrehKippLinks] 0"
  unfolding sashBack_modern_slim sashFront_modern_slim glass_back_modern_slim
  by (simp add: calculateGlassZPosition_def orDefault_def mm_def)

section \<open>Properties of the frame ring\<close>

lemma place_Bottom:
  "placeVertex (getFrameSegmentTransform Bottom w h d pw) (x, y, z)
     = (- w / 2 + pw + z, - h / 2 + x, - d / 2 + y)"
  by (simp add: placeVertex_def getFrameSegmentTransform_def eulerRotate_def vadd_def vscale_def)

lemma place_Top:
  "placeVertex (getFrameSegmentTransform Top w h d pw) (x, y, z)
     = (w / 2 - pw - z, h / 2 - x, - d / 2 + y)"
  by (simp add: placeVertex_def getFrameSegmentTransform_def eulerRotate_def vadd_def vscale_def)

lemma place_Left:
  "placeVertex (getFrameSegmentTransform Left w h d pw) (x, y, z)
     = (- w / 2 + x, h / 2 - z, - d / 2 + y)"
  by (simp add: placeVertex_def getFrameSegmentTransform_def eulerRotate_def vadd_def vscale_def)

lemma place_Right:
  "placeVertex (getFrameSegmentTransform Right w h d pw) (x, y, z)
     = (w / 2 - x, - h / 2 + z, - d / 2 + y)"
  by (simp add: placeVertex_def getFrameSegmentTransform_def eulerRotate_def vadd_def vscale_def)

lemmas place_simps = place_Bottom place_Top place_Left place_Right

lemma vdist_same: "vdist p p = 0"
  by (simp add: vdist_def split: prod.splits)

lemma ring_lengths:
  "map extrudeDepth (createFrameFromProfile widthMm heightMm profileWidth profileDepth)
     = [widthMm * mm - 2 * (profileWidth * mm), widthMm * mm - 2 * (profileWidth * mm),
        heightMm * mm, heightMm * mm]"
  by (simp add: createFrameFromProfile_def Let_def)

text \<open>
  The sash ring follows the same joint rule: with the clearance taken off both
  dimensions, the outer corners of the horizontal rails coincide with the ends of the
  inner edges of the vertical stiles.
\<close>

lemma sash_ring_lengths:
  "map extrudeDepth (createSashFrame outerWidth outerHeight profileConfig)
     = (let aw = outerWidth * mm - SASH_CLEARANCE;
            ah = outerHeight * mm - SASH_CLEARANCE;
            spw = orDefault (width profileConfig) 60 * mm * 0.7
        in [aw - 2 * spw, aw - 2 * spw, ah, ah])"
  by (simp add: createSashFrame_def Let_def)

lemma sash_ring_corners_meet:
  "(let aw = sashWidth - SASH_CLEARANCE; ah = sashHeight - SASH_CLEARANCE;
        t = (\<lambda>segment. getSashSegmentTransform segment sashWidth sashHeight d zOffset spw)
    in placeVertex (t Bottom) (0, y, 0) = placeVertex (t Right) (spw, y, ah)
     \<and> placeVertex (t Bottom) (0, y, aw - 2 * spw) = placeVertex (t Left) (0, y, ah)
     \<and> placeVertex (t Top) (spw, y, 0) = placeVertex (t Right) (spw, y, 0)
     \<and> placeVertex (t Top) (spw, y, aw - 2 * spw) = placeVertex (t Left) (0, y, 0))"
  by (simp add: Let_def placeVertex_def getSashSegmentTransform_def eulerRotate_def
      vadd_def vscale_def field_simps)

text \<open>
  C1. For width, height \<open>> 2 * profileWidth\<close> and profileWidth, profileDepth \<open>> 0\<close>
  (millimetres): the ring of \<open>createFrameFromProfile\<close> has bottom and top of length
  \<open>width - 2 * profileWidth\<close> and left and right of length \<open>height\<close>. Under the
  transforms of \<open>getFrameSegmentTransform\<close> the corner-adjacent end of each horizontal
  segment (the outer edge of its end face, at every depth coordinate \<open>y\<close> of the profile)
  lies within \<open>1e-6\<close> of the corner-adjacent end of the inner edge of the vertical
  segment it meets, at all four corners, and each of the four corner points is a placed
  vertex of both segments that meet there (no gap). The placed vertices of the horizontal
  segments stay between the two vertical segments in X, which occupy the outermost
  \<open>profileWidth\<close> on each side (no overlap).
\<close>

theorem frame_ring_corners_meet:
  assumes "0 < profileWidth" and "0 < profileDepth"
    and "2 * profileWidth < widthMm" and "2 * profileWidth < heightMm"
  shows
   "(let w = widthMm * mm; h = heightMm * mm; pw = profileWidth * mm; d = profileDepth * mm;
         t = (\<lambda>segment. outerFrameTransform segment widthMm heightMm profileWidth profileDepth);
         placed = (\<lambda>segment. set (outerFrameSegmentVertices segment
                                      widthMm heightMm profileWidth profileDepth))
     in map extrudeDepth (createFrameFromProfile widthMm heightMm profileWidth profileDepth)
          = [w - 2 * pw, w - 2 * pw, h, h]
      \<and> (\<forall>y. vdist (placeVertex (t Bottom) (0, y, 0))
                  (placeVertex (t Left) (pw, y, h)) < 1 / 10 ^ 6)
      \<and> (\<forall>y. vdist (placeVertex (t Bottom) (0, y, w - 2 * pw))
                  (placeVertex (t Right) (pw, y, 0)) < 1 / 10 ^ 6)
      \<and> (\<forall>y. vdist (placeVertex (t Top) (0, y, w - 2 * pw))
                  (placeVertex (t Left) (pw, y, 0)) < 1 / 10 ^ 6)
      \<and> (\<forall>y. vdist (placeVertex (t Top) (0, y, 0))
                  (placeVertex (t Right) (pw, y, h)) < 1 / 10 ^ 6)
      \<and> (- w / 2 + pw, - h / 2, - d / 2) \<in> placed Bottom \<inter> placed Left
      \<and> (w / 2 - pw, - h / 2, - d / 2) \<in> placed Bottom \<inter> placed Right
      \<and> (- w / 2 + pw, h / 2, - d / 2) \<in> placed Top \<inter> placed Left
      \<and> (w / 2 - pw, h / 2, - d / 2) \<in> placed Top \<inter> placed Right
      \<and> (\<forall>p \<in> placed Bottom \<union> placed Top. - w / 2 + pw \<le> fst p \<and> fst p \<le> w / 2 - pw)
      \<and> (\<forall>p \<in> placed Left. - w / 2 \<le> fst p \<and> fst p \<le> - w / 2 + pw)
      \<and> (\<forall>p \<in> placed Right. w / 2 - pw \<le> fst p \<and> fst p \<le> w / 2))"
  using assms
  apply (simp add: Let_def ring_lengths outerFrameTransform_def place_simps mm_def vdist_same)
  apply (simp add: outerFrameSegmentVertices_def outerFrameTransform_def
      createFrameFromProfile_def createLShapeProfileCrossSection_def extrudeVertices_def
      segmentIndex_def Let_def place_simps mm_def)
  done

theorem frame_ring_corners_meet_witness:
  "(0::real) < 60 \<and> (0::real) < 70 \<and> 2 * 60 < (1000::real) \<and> 2 * 60 < (1200::real)
   \<and> map extrudeDepth (createFrameFromProfile 1000 1200 60 70) = [0.88, 0.88, 1.2, 1.2]
   \<and> vdist (placeVertex (outerFrameTransform Bottom 1000 1200 60 70) (0, 0, 0))
        (placeVertex (outerFrameTransform Left 1000 1200 60 70) (0.06, 0, 1.2)) < 1 / 10 ^ 6
   \<and> vdist (placeVertex (outerFrameTransform Top 1000 1200 60 70) (0, 0, 0))
        (placeVertex (outerFrameTransform Right 1000 1200 60 70) (0.06, 0, 1.2)) < 1 / 10 ^ 6"
proof -
  have h: "(0::real) < 60" "(0::real) < 70" "2 * 60 < (1000::real)" "2 * 60 < (1200::real)"
    by simp_all
  from frame_ring_corners_meet [OF h] show ?thesis
    by (simp add: Let_def mm_def)
qed

lemma frame_zs:
  "set (map (\<lambda>(x, y, z). z) (outerFrameVertices widthMm heightMm profileWidth profileDepth))
     = {- (profileDepth * mm) / 2,
        - (profileDepth * mm) / 2 + 0.7 * (profileDepth * mm),
        (profileDepth * mm) / 2}"
  by (auto simp add: outerFrameVertices_def segmentOrder_def outerFrameSegmentVertices_def
      outerFrameTransform_def createFrameFromProfile_def createLShapeProfileCrossSection_def
      extrudeVertices_def segmentIndex_def Let_def place_simps mm_def)

lemma frameBack_eq:
  assumes "0 < profileDepth"
  shows "frameBack widthMm heightMm profileWidth profileDepth = - (profileDepth * mm) / 2"
  unfolding frameBack_def frame_zs using assms by (simp add: mm_def min_def)

lemma frameFront_eq:
  assumes "0 < profileDepth"
  shows "frameFront widthMm heightMm profileWidth profileDepth = (profileDepth * mm) / 2"
  unfolding frameFront_def frame_zs using assms by (simp add: mm_def max_def)

text \<open>
  C7. For every profile depth \<open>> 0\<close> and glass thickness \<open>\<ge> 0\<close> the glass front
  position is the glass centre plus half the thickness, and the front of the placed outer
  frame (its greatest z) lies strictly beyond its back (its least z).
\<close>

theorem glassFront_and_frame_extent:
  assumes "0 < depth profileConfig" and "0 \<le> glassThicknessMm"
  shows "calculateGlassFrontZPosition profileConfig glassThicknessMm
           = calculateGlassZPosition profileConfig glassThicknessMm + (glassThicknessMm * mm) / 2
         \<and> frameBack widthMm heightMm (width profileConfig) (depth profileConfig)
             < frameFront widthMm heightMm (width profileConfig) (depth profileConfig)"
  using assms
  by (simp add: calculateGlassFrontZPosition_def Let_def frameBack_eq frameFront_eq mm_def)

theorem glassFront_and_frame_extent_witness:
  "0 < depth \<lparr>profileKey = ''modern-slim'', width = 60, depth = 70,
        glassRebateDepth = 18, sightline = 35\<rparr>
   \<and> (0::real) \<le> 24
   \<and> calculateGlassFrontZPosition
        \<lparr>profileKey = ''modern-slim'', width = 60, depth = 70,
         glassRebateDepth = 18, sightline = 35\<rparr> 24
      = calculateGlassZPosition
          \<lparr>profileKey = ''modern-slim'', width = 60, depth = 70,
           glassRebateDepth = 18, sightline = 35\<rparr> 24 + 0.012
   \<and> frameBack 1000 1200 60 70 < frameFront 1000 1200 60 70"
  using glassFront_and_frame_extent
    [of "\<lparr>profileKey = ''modern-slim'', width = 60, depth = 70,
          glassRebateDepth = 18, sightline = 35\<rparr>" 24 1000 1200]
  by (simp add: mm_def)

section \<open>Properties of the sash animation\<close>

lemma animateRotation_eq:
  "animateRotation dt T a = (if \<bar>T - a\<bar> < 0.01 then T else a + (T - a) * 3 * dt)"
  by (simp add: animateRotation_def Let_def mult.commute mult.left_commute)

text \<open>
  Starting from angle 0, after \<open>n\<close> frames the remaining distance to the target is a
  fraction \<open>c\<close> of the target with \<open>0 \<le> c \<le> (1 - 3 dt)^n\<close>.
\<close>

lemma animate_invariant:
  assumes "0 < dt" and "3 * dt \<le> 1"
  shows "\<exists>c. 0 \<le> c \<and> c \<le> (1 - 3 * dt) ^ n \<and> T - (animateRotation dt T ^^ n) 0 = c * T"
proof (induction n)
  case 0
  show ?case by (rule exI [of _ 1]) simp
next
  case (Suc n)
  then obtain c where c: "0 \<le> c" "c \<le> (1 - 3 * dt) ^ n"
    "T - (animateRotation dt T ^^ n) 0 = c * T" by blast
  let ?a = "(animateRotation dt T ^^ n) 0"
  have r: "0 \<le> 1 - 3 * dt" using assms by simp
  show ?case
  proof (cases "\<bar>T - ?a\<bar> < 0.01")
    case True
    then have "(animateRotation dt T ^^ Suc n) 0 = T"
      by (simp add: animateRotation_eq)
    then show ?thesis using r by (intro exI [of _ 0]) simp
  next
    case False
    then have "(animateRotation dt T ^^ Suc n) 0 = ?a + (T - ?a) * 3 * dt"
      by (simp add: animateRotation_eq)
    then have "T - (animateRotation dt T ^^ Suc n) 0 = (T - ?a) * (1 - 3 * dt)"
      by (simp add: algebra_simps)
    then have e: "T - (animateRotation dt T ^^ Suc n) 0 = (c * (1 - 3 * dt)) * T"
      using c(3) by (simp add: algebra_simps)
    have "0 \<le> c * (1 - 3 * dt)" using c(1) r by simp
    moreover have "c * (1 - 3 * dt) \<le> (1 - 3 * dt) ^ Suc n"
      using mult_right_mono [OF c(2) r] by (simp add: mult.commute)
    ultimately show ?thesis using e by blast
  qed
qed

lemma animate_error_bound:
  assumes "0 < dt" and "3 * dt \<le> 1"
  shows "\<bar>(animateRotation dt T ^^ n) 0 - T\<bar> \<le> (1 - 3 * dt) ^ n * \<bar>T\<bar>"
proof -
  obtain c where c: "0 \<le> c" "c \<le> (1 - 3 * dt) ^ n"
    "T - (animateRotation dt T ^^ n) 0 = c * T"
    using animate_invariant [OF assms] by blast
  have "\<bar>(animateRotation dt T ^^ n) 0 - T\<bar> = \<bar>c * T\<bar>"
    using c(3) by (simp add: abs_minus_commute)
  also have "\<dots> = c * \<bar>T\<bar>" using c(1) by (simp add: abs_mult)
  also have "\<dots> \<le> (1 - 3 * dt) ^ n * \<bar>T\<bar>" using c(2) by (simp add: mult_right_mono)
  finally show ?thesis .
qed

lemma animate_no_overshoot:
  assumes "0 < dt" and "3 * dt \<le> 1"
  shows "\<bar>(animateRotation dt T ^^ n) 0\<bar> \<le> \<bar>T\<bar> \<and> 0 \<le> (animateRotation dt T ^^ n) 0 * T"
proof -
  obtain c where c: "0 \<le> c" "c \<le> (1 - 3 * dt) ^ n"
    "T - (animateRotation dt T ^^ n) 0 = c * T"
    using animate_invariant [OF assms] by blast
  have "(1 - 3 * dt) ^ n \<le> 1" using assms by (simp add: power_le_one)
  then have c1: "c \<le> 1" using c(2) by simp
  have a: "(animateRotation dt T ^^ n) 0 = (1 - c) * T" using c(3) by (simp add: algebra_simps)
  have "\<bar>(1 - c) * T\<bar> = (1 - c) * \<bar>T\<bar>" using c1 by (simp add: abs_mult)
  also have "\<dots> \<le> 1 * \<bar>T\<bar>" using c(1) by (intro mult_right_mono) simp_all
  finally have "\<bar>(1 - c) * T\<bar> \<le> \<bar>T\<bar>" by simp
  moreover have "0 \<le> (1 - c) * T * T" using c1 by (simp add: mult.assoc)
  ultimately show ?thesis using a by simp
qed

lemma power_decay:
  fixes r :: real
  assumes "0 < r" and "r \<le> 1"
  shows "(1 - r) ^ n * (1 + real n * r) \<le> 1"
proof -
  have "1 + real n * r \<le> (1 + r) ^ n"
    using Bernoulli_inequality [of r n] assms by simp
  moreover have "0 \<le> (1 - r) ^ n" using assms by simp
  ultimately have "(1 - r) ^ n * (1 + real n * r) \<le> (1 - r) ^ n * (1 + r) ^ n"
    by (rule mult_left_mono)
  also have "\<dots> = ((1 - r) * (1 + r)) ^ n" by (simp add: power_mult_distrib)
  also have "\<dots> \<le> 1"
  proof (rule power_le_one)
    show "0 \<le> (1 - r) * (1 + r)" using assms by simp
    have "(1 - r) * (1 + r) = 1 - r * r" by (simp add: algebra_simps)
    then show "(1 - r) * (1 + r) \<le> 1" using assms by simp
  qed
  finally show ?thesis .
qed

lemma animate_converged:
  assumes "0 < dt" and "3 * dt \<le> 1" and "nat \<lceil>100 * \<bar>T\<bar> / (3 * dt)\<rceil> \<le> n"
  shows "\<bar>(animateRotation dt T ^^ n) 0 - T\<bar> < 0.01"
proof -
  let ?r = "3 * dt"
  have r: "0 < ?r" "?r \<le> 1" using assms by simp_all
  have "100 * \<bar>T\<bar> / ?r \<le> real_of_int \<lceil>100 * \<bar>T\<bar> / ?r\<rceil>" by simp
  also have "\<dots> \<le> real (nat \<lceil>100 * \<bar>T\<bar> / ?r\<rceil>)" by simp
  also have "\<dots> \<le> real n" using assms(3) by simp
  finally have "100 * \<bar>T\<bar> / ?r \<le> real n" .
  then have nr: "100 * \<bar>T\<bar> \<le> real n * ?r" using r(1) by (simp add: pos_divide_le_eq)
  have pos: "0 < 1 + real n * ?r" using r(1) by (simp add: add_pos_nonneg)
  have "(1 - ?r) ^ n * \<bar>T\<bar> * (1 + real n * ?r) = ((1 - ?r) ^ n * (1 + real n * ?r)) * \<bar>T\<bar>"
    by (simp add: mult.commute mult.left_commute)
  also have "\<dots> \<le> 1 * \<bar>T\<bar>"
    by (intro mult_right_mono power_decay r) simp
  finally have "(1 - ?r) ^ n * \<bar>T\<bar> * (1 + real n * ?r) \<le> \<bar>T\<bar>" by simp
  then have "(1 - ?r) ^ n * \<bar>T\<bar> \<le> \<bar>T\<bar> / (1 + real n * ?r)"
    using pos by (simp add: pos_le_divide_eq)
  also have "\<dots> < 0.01"
  proof -
    have "100 * \<bar>T\<bar> < 1 + real n * ?r" using nr by simp
    then show ?thesis using pos by (simp add: pos_divide_less_eq)
  qed
  finally have "(1 - ?r) ^ n * \<bar>T\<bar> < 0.01" .
  then show ?thesis
    using animate_error_bound [OF assms(1,2), where T = T and n = n] by simp
qed

lemma animate_snapped:
  assumes "0 < dt" and "3 * dt \<le> 1" and "nat \<lceil>100 * \<bar>T\<bar> / (3 * dt)\<rceil> < n"
  shows "(animateRotation dt T ^^ n) 0 = T"
proof -
  obtain m where n: "n = Suc m" using assms(3) by (cases n) simp_all
  then have "nat \<lceil>100 * \<bar>T\<bar> / (3 * dt)\<rceil> \<le> m" using assms(3) by linarith
  from animate_converged [OF assms(1,2) this]
  have "\<bar>T - (animateRotation dt T ^^ m) 0\<bar> < 0.01" by (simp add: abs_minus_commute)
  then show ?thesis unfolding n by (simp add: animateRotation_eq)
qed

text \<open>
  C3 (as stated, refuted). With a frame time of one second and target 1 the first tick
  from angle 0 moves the angle to 3: it exceeds the target by 2.
\<close>

theorem animateRotation_overshoot_counterexample:
  "1 + 1 < animateRotation 1 1 0"
  by (simp add: animateRotation_def)

text \<open>
  C3 (amended). Each tick replaces the angle by \<open>angle + (target - angle) * 3 * dt\<close>, or
  by the target itself once \<open>|target - angle| < 0.01\<close>. For a fixed frame time with
  \<open>0 < dt \<le> 1/3\<close> and a fixed target \<open>T \<noteq> 0\<close>, starting from angle 0: from tick
  \<open>\<lceil>100 |T| / (3 dt)\<rceil>\<close> on the angle is within 0.01 of \<open>T\<close>, one tick later it is
  exactly \<open>T\<close>, and at every tick the angle lies between 0 and \<open>T\<close> (no overshoot).
\<close>

theorem animateRotation_converges_without_overshoot:
  assumes "0 < dt" and "3 * dt \<le> 1" and "T \<noteq> 0"
  shows "(\<forall>a. animateRotation dt T a
                = (if \<bar>T - a\<bar> < 0.01 then T else a + (T - a) * 3 * dt))
    \<and> (\<forall>n. nat \<lceil>100 * \<bar>T\<bar> / (3 * dt)\<rceil> \<le> n
            \<longrightarrow> \<bar>(animateRotation dt T ^^ n) 0 - T\<bar> < 0.01)
    \<and> (\<forall>n. nat \<lceil>100 * \<bar>T\<bar> / (3 * dt)\<rceil> < n
            \<longrightarrow> (animateRotation dt T ^^ n) 0 = T)
    \<and> (\<forall>n. \<bar>(animateRotation dt T ^^ n) 0\<bar> \<le> \<bar>T\<bar>
            \<and> 0 \<le> (animateRotation dt T ^^ n) 0 * T)"
  using assms animateRotation_eq animate_converged animate_snapped animate_no_overshoot
  by blast

theorem animateRotation_converges_without_overshoot_witness:
  "(0::real) < 1 / 3 \<and> 3 * (1 / 3) \<le> (1::real) \<and> (1::real) \<noteq> 0
    \<and> (animateRotation (1 / 3) 1 ^^ 101) 0 = 1"
proof -
  have h: "(0::real) < 1 / 3" "3 * (1 / 3) \<le> (1::real)" "(1::real) \<noteq> 0" by simp_all
  from animateRotation_converges_without_overshoot [OF h]
  have "\<forall>n. nat \<lceil>100 * \<bar>1::real\<bar> / (3 * (1 / 3))\<rceil> < n
          \<longrightarrow> (animateRotation (1 / 3) 1 ^^ n) 0 = 1"
    by blast
  then have "nat \<lceil>100 * \<bar>1::real\<bar> / (3 * (1 / 3))\<rceil> < 101
          \<longrightarrow> (animateRotation (1 / 3) 1 ^^ 101) 0 = 1"
    by blast
  then show ?thesis by simp
qed

section \<open>Properties of the target angles\<close>

lemma jsGet_targetRotations:
  "jsGet (targetRotations configs st) index
     = map_option (\<lambda>isOpen. targetRotation configs (sashModes st) isOpen index)
         (jsGet (sashOpenStates st) index)"
  by (simp add: jsGet_def targetRotations_def)

text \<open>
  C4. For an open sash the target angle follows from its opening kind: kipp (tilt)
  \<open>pi/16\<close>, dreh-links (turn-left) \<open>-0.6 pi\<close>, dreh-rechts (turn-right) \<open>0.6 pi\<close>, fixed 0;
  a hybrid kind takes the tilt target \<open>pi/16\<close> when its mode is kipp and otherwise the
  turn target of its side.
\<close>

theorem targetRotations_by_kind:
  assumes "jsGet (sashOpenStates st) index = Some True"
    and "index < length configs"
  shows "\<exists>target. jsGet (targetRotations configs st) index = Some target
     \<and> (configs ! index = Kipp \<longrightarrow> target = pi / 16)
     \<and> (configs ! index = DrehLinks \<longrightarrow> target = - (0.6 * pi))
     \<and> (configs ! index = DrehRechts \<longrightarrow> target = 0.6 * pi)
     \<and> (configs ! index = Fixed \<longrightarrow> target = 0)
     \<and> (configs ! index = DrehKippLinks \<longrightarrow>
          (jsGet (sashModes st) index = Some kipp \<longrightarrow> target = pi / 16)
          \<and> (jsGet (sashModes st) index \<noteq> Some kipp \<longrightarrow> target = - (0.6 * pi)))
     \<and> (configs ! index = DrehKippRechts \<longrightarrow>
          (jsGet (sashModes st) index = Some kipp \<longrightarrow> target = pi / 16)
          \<and> (jsGet (sashModes st) index \<noteq> Some kipp \<longrightarrow> target = 0.6 * pi))"
  using assms
  by (auto simp add: jsGet_targetRotations targetRotation_def Let_def
      split: option.splits SashMode.splits)

theorem targetRotations_by_kind_witness:
  "jsGet (sashOpenStates
       \<lparr>sashOpenStates = [Some True], sashRotations = [Some 0],
        sashModes = [Some kipp], reopenTimeouts = []\<rparr>) 0 = Some True
   \<and> (0::nat) < length [DrehKippLinks]
   \<and> jsGet (targetRotations [DrehKippLinks]
        \<lparr>sashOpenStates = [Some True], sashRotations = [Some 0],
         sashModes = [Some kipp], reopenTimeouts = []\<rparr>) 0 = Some (pi / 16)"
proof -
  let ?st = "\<lparr>sashOpenStates = [Some True], sashRotations = [Some 0],
        sashModes = [Some kipp], reopenTimeouts = []\<rparr>"
  have h1: "jsGet (sashOpenStates ?st) 0 = Some True" by (simp add: jsGet_def)
  have h2: "(0::nat) < length [DrehKippLinks]" by simp
  have m: "jsGet (sashModes ?st) 0 = Some kipp" by (simp add: jsGet_def)
  from targetRotations_by_kind [OF h1 h2] obtain target
    where "jsGet (targetRotations [DrehKippLinks] ?st) 0 = Some target"
      and "[DrehKippLinks] ! 0 = DrehKippLinks \<longrightarrow>
             (jsGet (sashModes ?st) 0 = Some kipp \<longrightarrow> target = pi / 16)"
    by blast
  then have "jsGet (targetRotations [DrehKippLinks] ?st) 0 = Some (pi / 16)"
    using m by simp
  then show ?thesis using h1 h2 by blast
qed

section \<open>Properties of toggling and mode switching\<close>

lemma jsGet_jsSet_same: "jsGet (jsSet xs i v) i = Some v"
  by (simp add: jsGet_def jsSet_def nth_append)

lemma jsGet_jsSet_other: "i \<noteq> j \<Longrightarrow> jsGet (jsSet xs i v) j = jsGet xs j"
  by (auto simp add: jsGet_def jsSet_def nth_append nth_Cons split: nat.splits)

lemma useFrame_keeps:
  "sashOpenStates (useFrame configs delta st) = sashOpenStates st"
  "sashModes (useFrame configs delta st) = sashModes st"
  "reopenTimeouts (useFrame configs delta st) = reopenTimeouts st"
  by (simp_all add: useFrame_def)

lemma jsGet_useFrame:
  "jsGet (sashRotations (useFrame configs delta st)) index
     = map_option
         (animateRotation delta
            (case jsGet (targetRotations configs st) index of Some t \<Rightarrow> t | None \<Rightarrow> 0))
         (jsGet (sashRotations st) index)"
  by (simp add: useFrame_def jsGet_def)

lemma animateRotation_rest: "animateRotation delta 0 0 = 0"
  by (simp add: animateRotation_def)

lemma run_Nil: "run configs st [] = st"
  by (simp add: run_def)

lemma run_Cons: "run configs st (ev # evs) = run configs (step configs st ev) evs"
  by (simp add: run_def)

lemma run_snoc: "run configs st (evs @ [ev]) = step configs (run configs st evs) ev"
  by (simp add: run_def)

text \<open>A closed sash at angle 0 stays closed at angle 0 under animation frames.\<close>

lemma frames_keep_closed:
  assumes "jsGet (sashRotations st) index = Some 0"
    and "jsGet (sashOpenStates st) index = Some False"
  shows "jsGet (sashRotations (run configs st (map Frame deltas))) index = Some 0
       \<and> jsGet (sashOpenStates (run configs st (map Frame deltas))) index = Some False
       \<and> sashModes (run configs st (map Frame deltas)) = sashModes st
       \<and> reopenTimeouts (run configs st (map Frame deltas)) = reopenTimeouts st"
  using assms
proof (induction deltas arbitrary: st)
  case Nil
  then show ?case by (simp add: run_Nil)
next
  case (Cons d ds)
  have 1: "jsGet (sashRotations (useFrame configs d st)) index = Some 0"
    using Cons.prems
    by (simp add: jsGet_useFrame jsGet_targetRotations targetRotation_def animateRotation_rest)
  have 2: "jsGet (sashOpenStates (useFrame configs d st)) index = Some False"
    using Cons.prems by (simp add: useFrame_keeps)
  from Cons.IH [OF 1 2] show ?case
    by (simp add: run_Cons step_def useFrame_keeps)
qed

lemma handle_switch:
  assumes "jsGet (sashOpenStates st) index = Some True"
    and "(case jsGet (sashModes st) index of Some m \<Rightarrow> m | None \<Rightarrow> dreh) \<noteq> mode"
  shows "handleSashOpenChange index isOpen mode st
     = st\<lparr>sashRotations := jsSet (sashRotations st) index 0,
          sashModes := jsSet (sashModes st) index mode,
          sashOpenStates := jsSet (sashOpenStates st) index False,
          reopenTimeouts := reopenTimeouts st @ [index]\<rparr>"
  using assms by (simp add: handleSashOpenChange_def Let_def)

text \<open>
  C5 (as stated, refuted). A hybrid sash is open in dreh mode. The kipp button is
  clicked (mode switch: the sash is closed and a reopen is scheduled), then the dreh
  button is clicked twice (open, then close), all before the scheduled callback runs.
  The callback then sets the open flag again: the pending reopen was not superseded by
  the later toggles, and the sash ends up open although the last click closed it.
\<close>

theorem mode_switch_reopen_races_counterexample:
  "sashOpenStates
     (run [DrehKippLinks]
        \<lparr>sashOpenStates = [Some True], sashRotations = [Some (- 1)],
         sashModes = [Some dreh], reopenTimeouts = []\<rparr>
        [Toggle 0 True kipp, Toggle 0 True dreh, Toggle 0 False dreh, Timeout])
   = [Some True]"
  by (simp add: run_def step_def handleSashOpenChange_def reopenTimeout_def jsGet_def jsSet_def)

text \<open>
  C5 (amended). When a sash is open and the handler is called with the other mode (no
  reopen pending), the handler sets the angle of that sash to 0 at once, stores the new
  mode, clears the open flag and schedules one reopen callback on a timer. During any
  number of animation frames after that the sash stays closed at angle 0 with target 0,
  so reaching angle 0 does not reopen it. When the scheduled callback then runs, the
  sash is open in the new mode with its angle still 0, and for a hybrid kind the target
  is the tilt target if the new mode is kipp and the turn target of its side otherwise.
\<close>

theorem mode_switch_closes_then_timer_reopens:
  assumes "jsGet (sashOpenStates st) index = Some True"
    and "(case jsGet (sashModes st) index of Some m \<Rightarrow> m | None \<Rightarrow> dreh) \<noteq> mode"
    and "reopenTimeouts st = []"
    and "index < length configs"
  shows "(let st1 = handleSashOpenChange index isOpen mode st
     in jsGet (sashRotations st1) index = Some 0
      \<and> jsGet (sashModes st1) index = Some mode
      \<and> jsGet (sashOpenStates st1) index = Some False
      \<and> reopenTimeouts st1 = [index]
      \<and> (\<forall>deltas.
            jsGet (sashRotations (run configs st1 (map Frame deltas))) index = Some 0
          \<and> jsGet (sashOpenStates (run configs st1 (map Frame deltas))) index = Some False
          \<and> jsGet (targetRotations configs (run configs st1 (map Frame deltas))) index
              = Some 0)
      \<and> (\<forall>deltas. let st2 = run configs st1 (map Frame deltas @ [Timeout])
            in jsGet (sashOpenStates st2) index = Some True
             \<and> jsGet (sashRotations st2) index = Some 0
             \<and> jsGet (sashModes st2) index = Some mode
             \<and> (configs ! index = DrehKippLinks \<longrightarrow>
                  jsGet (targetRotations configs st2) index
                    = Some (if mode = kipp then pi / 16 else - (0.6 * pi)))
             \<and> (configs ! index = DrehKippRechts \<longrightarrow>
                  jsGet (targetRotations configs st2) index
                    = Some (if mode = kipp then pi / 16 else 0.6 * pi))))"
proof -
  let ?st1 = "handleSashOpenChange index isOpen mode st"
  have sw: "?st1 = st\<lparr>sashRotations := jsSet (sashRotations st) index 0,
          sashModes := jsSet (sashModes st) index mode,
          sashOpenStates := jsSet (sashOpenStates st) index False,
          reopenTimeouts := reopenTimeouts st @ [index]\<rparr>"
    by (rule handle_switch [OF assms(1,2)])
  have r: "jsGet (sashRotations ?st1) index = Some 0"
    and m: "jsGet (sashModes ?st1) index = Some mode"
    and o: "jsGet (sashOpenStates ?st1) index = Some False"
    and t: "reopenTimeouts ?st1 = [index]"
    using assms(3) by (simp_all add: sw jsGet_jsSet_same)
  have frames: "jsGet (sashRotations (run configs ?st1 (map Frame deltas))) index = Some 0
          \<and> jsGet (sashOpenStates (run configs ?st1 (map Frame deltas))) index = Some False
          \<and> jsGet (targetRotations configs (run configs ?st1 (map Frame deltas))) index
              = Some 0"
    for deltas
    using frames_keep_closed [OF r o, of configs deltas]
    by (simp add: jsGet_targetRotations targetRotation_def)
  have fire: "(let st2 = run configs ?st1 (map Frame deltas @ [Timeout])
            in jsGet (sashOpenStates st2) index = Some True
             \<and> jsGet (sashRotations st2) index = Some 0
             \<and> jsGet (sashModes st2) index = Some mode
             \<and> (configs ! index = DrehKippLinks \<longrightarrow>
                  jsGet (targetRotations configs st2) index
                    = Some (if mode = kipp then pi / 16 else - (0.6 * pi)))
             \<and> (configs ! index = DrehKippRechts \<longrightarrow>
                  jsGet (targetRotations configs st2) index
                    = Some (if mode = kipp then pi / 16 else 0.6 * pi)))"
    for deltas
  proof -
    let ?s = "run configs ?st1 (map Frame deltas)"
    from frames_keep_closed [OF r o, of configs deltas]
    have k: "jsGet (sashRotations ?s) index = Some 0" "sashModes ?s = sashModes ?st1"
      "reopenTimeouts ?s = [index]"
      using t by simp_all
    have s2: "run configs ?st1 (map Frame deltas @ [Timeout])
        = ?s\<lparr>sashOpenStates := jsSet (sashOpenStates ?s) index True, reopenTimeouts := []\<rparr>"
      using k(3) by (simp add: run_snoc step_def reopenTimeout_def)
    show ?thesis
      unfolding s2 Let_def using k(1,2) m assms(4)
      by (simp add: jsGet_jsSet_same jsGet_targetRotations targetRotation_def)
  qed
  show ?thesis unfolding Let_def using r m o t frames fire unfolding Let_def by blast
qed

theorem mode_switch_closes_then_timer_reopens_witness:
  "jsGet (sashOpenStates
       \<lparr>sashOpenStates = [Some True], sashRotations = [Some (- 1)],
        sashModes = [Some dreh], reopenTimeouts = []\<rparr>) 0 = Some True
   \<and> (case jsGet (sashModes
       \<lparr>sashOpenStates = [Some True], sashRotations = [Some (- 1)],
        sashModes = [Some dreh], reopenTimeouts = []\<rparr>) 0 of Some m \<Rightarrow> m | None \<Rightarrow> dreh)
       \<noteq> kipp
   \<and> (0::nat) < length [DrehKippLinks]
   \<and> jsGet (sashRotations (handleSashOpenChange 0 True kipp
        \<lparr>sashOpenStates = [Some True], sashRotations = [Some (- 1)],
         sashModes = [Some dreh], reopenTimeouts = []\<rparr>)) 0 = Some 0
   \<and> jsGet (sashOpenStates (handleSashOpenChange 0 True kipp
        \<lparr>sashOpenStates = [Some True], sashRotations = [Some (- 1)],
         sashModes = [Some dreh], reopenTimeouts = []\<rparr>)) 0 = Some False"
proof -
  let ?st = "\<lparr>sashOpenStates = [Some True], sashRotations = [Some (- 1)],
        sashModes = [Some dreh], reopenTimeouts = []\<rparr>"
  have h1: "jsGet (sashOpenStates ?st) 0 = Some True" by (simp add: jsGet_def)
  have h2: "(case jsGet (sashModes ?st) 0 of Some m \<Rightarrow> m | None \<Rightarrow> dreh) \<noteq> kipp"
    by (simp add: jsGet_def)
  have h3: "reopenTimeouts ?st = []" by simp
  have h4: "(0::nat) < length [DrehKippLinks]" by simp
  from mode_switch_closes_then_timer_reopens [OF h1 h2 h3 h4, of True]
  have "jsGet (sashRotations (handleSashOpenChange 0 True kipp ?st)) 0 = Some 0
      \<and> jsGet (sashOpenStates (handleSashOpenChange 0 True kipp ?st)) 0 = Some False"
    unfolding Let_def by blast
  then show ?thesis using h1 h2 h4 by blast
qed

lemma targetRotation_Fixed:
  assumes "index < length configs" and "configs ! index = Fixed"
  shows "targetRotation configs modes isOpen index = 0"
  using assms by (simp add: targetRotation_def)

text \<open>A call of the handler for one sash leaves every other sash as it was.\<close>

lemma handle_other_index:
  assumes "j \<noteq> index"
  shows "jsGet (sashOpenStates (handleSashOpenChange j isOpen mode st)) index
           = jsGet (sashOpenStates st) index"
    and "jsGet (sashModes (handleSashOpenChange j isOpen mode st)) index
           = jsGet (sashModes st) index"
    and "jsGet (sashRotations (handleSashOpenChange j isOpen mode st)) index
           = jsGet (sashRotations st) index"
    and "set (reopenTimeouts (handleSashOpenChange j isOpen mode st))
           \<subseteq> insert j (set (reopenTimeouts st))"
  using assms
  by (auto simp add: handleSashOpenChange_def Let_def jsGet_jsSet_other)

lemma step_fixed_unchanged:
  assumes "index < length configs" and "configs ! index = Fixed"
    and "uiCanProduce showOpeningViz configs ev"
    and "index \<notin> set (reopenTimeouts st)"
    and "jsGet (sashRotations st) index = None \<or> jsGet (sashRotations st) index = Some 0"
  shows "jsGet (sashOpenStates (step configs st ev)) index = jsGet (sashOpenStates st) index
       \<and> jsGet (sashModes (step configs st ev)) index = jsGet (sashModes st) index
       \<and> jsGet (sashRotations (step configs st ev)) index = jsGet (sashRotations st) index
       \<and> index \<notin> set (reopenTimeouts (step configs st ev))"
proof (cases ev)
  case (Toggle j isOpen mode)
  then have "toggleRendered showOpeningViz configs j"
    using assms(3) by (simp add: uiCanProduce_def)
  then have j: "j \<noteq> index" using assms(2) by (auto simp add: toggleRendered_def)
  show ?thesis
    using handle_other_index [OF j, of isOpen mode st] assms(4) j Toggle
    by (auto simp add: step_def)
next
  case (Frame delta)
  have "(case jsGet (targetRotations configs st) index of Some t \<Rightarrow> t | None \<Rightarrow> 0) = 0"
    by (simp add: jsGet_targetRotations targetRotation_Fixed [OF assms(1,2)]
        split: option.splits)
  then show ?thesis using Frame assms(4,5)
    by (auto simp add: step_def jsGet_useFrame animateRotation_rest useFrame_keeps)
next
  case Timeout
  show ?thesis
  proof (cases "reopenTimeouts st")
    case Nil
    then show ?thesis using Timeout assms(4) by (simp add: step_def reopenTimeout_def)
  next
    case (Cons j rest)
    then have "j \<noteq> index" "index \<notin> set rest" using assms(4) by auto
    then show ?thesis using Timeout Cons
      by (simp add: step_def reopenTimeout_def jsGet_jsSet_other)
  qed
qed

text \<open>
  C9. For a sash whose opening kind is fixed the open/close toggle does nothing: no
  toggle button is rendered for it, so the handler is never called with its index, and
  through every sequence of events that the rendered window can produce (clicks on the
  buttons that are rendered, animation frames, scheduled callbacks) its open flag, its
  rotation angle and its mode stay exactly as they were. No step raises an error. The
  sash is taken at rest (angle 0 or not yet initialised) with no reopen scheduled for
  it, which is how a fixed sash starts and the only state these events lead it to.
\<close>

theorem toggle_fixed_is_noop:
  assumes "index < length configs" and "configs ! index = Fixed"
    and "list_all (uiCanProduce showOpeningViz configs) evs"
    and "index \<notin> set (reopenTimeouts st)"
    and "jsGet (sashRotations st) index = None \<or> jsGet (sashRotations st) index = Some 0"
  shows "\<not> toggleRendered showOpeningViz configs index
       \<and> jsGet (sashOpenStates (run configs st evs)) index = jsGet (sashOpenStates st) index
       \<and> jsGet (sashRotations (run configs st evs)) index = jsGet (sashRotations st) index
       \<and> jsGet (sashModes (run configs st evs)) index = jsGet (sashModes st) index"
proof -
  have a: "\<not> toggleRendered showOpeningViz configs index"
    using assms(2) by (simp add: toggleRendered_def)
  have b: "jsGet (sashOpenStates (run configs st evs)) index = jsGet (sashOpenStates st) index
       \<and> jsGet (sashRotations (run configs st evs)) index = jsGet (sashRotations st) index
       \<and> jsGet (sashModes (run configs st evs)) index = jsGet (sashModes st) index"
    using assms(3,4,5)
  proof (induction evs arbitrary: st)
    case Nil
    then show ?case by (simp add: run_Nil)
  next
    case (Cons ev evs)
    from Cons.prems(1) have ev: "uiCanProduce showOpeningViz configs ev"
      and rest: "list_all (uiCanProduce showOpeningViz configs) evs" by simp_all
    note s = step_fixed_unchanged [OF assms(1,2) ev Cons.prems(2,3)]
    have r: "jsGet (sashRotations (step configs st ev)) index = None
        \<or> jsGet (sashRotations (step configs st ev)) index = Some 0"
      using s Cons.prems(3) by simp
    from s have t: "index \<notin> set (reopenTimeouts (step configs st ev))" by simp
    from Cons.IH [OF rest t r] s show ?case by (simp add: run_Cons)
  qed
  show ?thesis using a b by blast
qed

theorem toggle_fixed_is_noop_witness:
  "(0::nat) < length [Fixed, DrehKippRechts] \<and> [Fixed, DrehKippRechts] ! 0 = Fixed
   \<and> \<not> toggleRendered True [Fixed, DrehKippRechts] 0
   \<and> jsGet (sashOpenStates
        (run [Fixed, DrehKippRechts]
           \<lparr>sashOpenStates = [Some False, Some True], sashRotations = [Some 0, Some 1],
            sashModes = [Some dreh, Some dreh], reopenTimeouts = []\<rparr>
           [Toggle 1 True kipp, Frame 0.016, Timeout, Frame 0.016])) 0 = Some False
   \<and> jsGet (sashRotations
        (run [Fixed, DrehKippRechts]
           \<lparr>sashOpenStates = [Some False, Some True], sashRotations = [Some 0, Some 1],
            sashModes = [Some dreh, Some dreh], reopenTimeouts = []\<rparr>
           [Toggle 1 True kipp, Frame 0.016, Timeout, Frame 0.016])) 0 = Some 0
   \<and> jsGet (sashModes
        (run [Fixed, DrehKippRechts]
           \<lparr>sashOpenStates = [Some False, Some True], sashRotations = [Some 0, Some 1],
            sashModes = [Some dreh, Some dreh], reopenTimeouts = []\<rparr>
           [Toggle 1 True kipp, Frame 0.016, Timeout, Frame 0.016])) 0 = Some dreh"
proof -
  let ?configs = "[Fixed, DrehKippRechts]"
  let ?st = "\<lparr>sashOpenStates = [Some False, Some True], sashRotations = [Some 0, Some 1],
            sashModes = [Some dreh, Some dreh], reopenTimeouts = []\<rparr>"
  let ?evs = "[Toggle 1 True kipp, Frame 0.016, Timeout, Frame 0.016]"
  have h1: "(0::nat) < length ?configs" by simp
  have h2: "?configs ! 0 = Fixed" by simp
  have h3: "list_all (uiCanProduce True ?configs) ?evs"
    by (simp add: uiCanProduce_def toggleRendered_def)
  have h4: "(0::nat) \<notin> set (reopenTimeouts ?st)" by simp
  have h5: "jsGet (sashRotations ?st) 0 = None \<or> jsGet (sashRotations ?st) 0 = Some 0"
    by (simp add: jsGet_def)
  have v: "jsGet (sashOpenStates ?st) 0 = Some False" "jsGet (sashRotations ?st) 0 = Some 0"
    "jsGet (sashModes ?st) 0 = Some dreh"
    by (simp_all add: jsGet_def)
  from toggle_fixed_is_noop [OF h1 h2 h3 h4 h5]
  have "\<not> toggleRendered True ?configs 0
       \<and> jsGet (sashOpenStates (run ?configs ?st ?evs)) 0 = jsGet (sashOpenStates ?st) 0
       \<and> jsGet (sashRotations (run ?configs ?st ?evs)) 0 = jsGet (sashRotations ?st) 0
       \<and> jsGet (sashModes (run ?configs ?st ?evs)) 0 = jsGet (sashModes ?st) 0"
    .
  then show ?thesis unfolding v using h1 h2 by blast
qed

section \<open>Properties of the mullion rule\<close>

text \<open>
  C6 (as stated, refuted). Left sash dreh-rechts (turn-right), right sash dreh-links
  (turn-left), both manual settings on auto: the rule requires a mullion at their
  boundary, since both sashes are hinged on it.
\<close>

theorem pfosten_turn_right_turn_left_counterexample:
  "pfostenNeeds 2 [DrehRechts, DrehLinks] 0 0 = Inr [True]"
  by (simp add: pfostenNeeds_def pfostenRequired_def)

text \<open>
  C6 (amended). At any boundary \<open>i\<close> of the window, with its manual setting on auto:
  two adjacent dreh-kipp-links (tilt-turn-left) sashes require a mullion; a left sash
  dreh-rechts (turn-right) with a right sash dreh-links (turn-left) requires one as well
  and only the manual setting "no" removes it; it is the pair left dreh-links (turn-left),
  right dreh-rechts (turn-right), both hinged away from the shared boundary, that gets no
  mullion unless the manual setting is "yes".
\<close>

theorem pfosten_rule_cases:
  assumes "windowType \<le> length configs" and "i + 1 < windowType"
  shows "\<exists>needs. pfostenNeeds windowType configs pfosten1Choice pfosten2Choice = Inr needs
     \<and> length needs = windowType - 1
     \<and> (let manualSetting = (if i = 0 then pfosten1Choice else pfosten2Choice)
        in (configs ! i = DrehKippLinks \<and> configs ! (i + 1) = DrehKippLinks
              \<and> manualSetting = 0 \<longrightarrow> needs ! i)
         \<and> (configs ! i = DrehRechts \<and> configs ! (i + 1) = DrehLinks
              \<longrightarrow> (needs ! i \<longleftrightarrow> manualSetting \<noteq> 1))
         \<and> (configs ! i = DrehLinks \<and> configs ! (i + 1) = DrehRechts
              \<longrightarrow> (needs ! i \<longleftrightarrow> manualSetting = 2)))"
  using assms by (simp add: pfostenNeeds_def pfostenRequired_def Let_def)

theorem pfosten_rule_cases_witness:
  "(2::nat) \<le> length [DrehKippLinks, DrehKippLinks] \<and> (0::nat) + 1 < 2
   \<and> (\<exists>needs. pfostenNeeds 2 [DrehKippLinks, DrehKippLinks] 0 0 = Inr needs
         \<and> length needs = 1 \<and> needs ! 0)"
proof -
  have h1: "(2::nat) \<le> length [DrehKippLinks, DrehKippLinks]" by simp
  have h2: "(0::nat) + 1 < 2" by simp
  from pfosten_rule_cases [OF h1 h2, of 0 0]
  have "\<exists>needs. pfostenNeeds 2 [DrehKippLinks, DrehKippLinks] 0 0 = Inr needs
         \<and> length needs = 1 \<and> needs ! 0"
    by (simp add: Let_def)
  then show ?thesis using h1 h2 by blast
qed

section \<open>Properties of the fallbacks\<close>

lemma profileKeyOf_unmapped:
  assumes "profileChoice = None \<or> (\<exists>k. profileChoice = Some k \<and> (k < 1 \<or> 4 < k))"
  shows "profileKeyOf profileChoice = ''modern-slim''"
  using assms by (auto simp add: profileKeyOf_def jsIndex_def profileKeys_def)

lemma openingConfigs_nth:
  assumes "i < windowType"
  shows "openingConfigs windowType s1 s2 s3 ! i
     = (case jsIndex openingTypes
               (map_option (\<lambda>c. c - 1) (if i < 3 then [s1, s2, s3] ! i else None))
        of Some t \<Rightarrow> t | None \<Rightarrow> Fixed)"
  using assms by (simp add: openingConfigs_def Let_def)

lemma createGlassPanes_length:
  "length (createGlassPanes widthMm heightMm paneCount profileConfig t configs) = paneCount"
  by (simp add: createGlassPanes_def Let_def)

lemma profileConfigOf_library:
  "\<exists>config. profileConfigOf profileChoice = Some config
     \<and> 0 < width config \<and> 0 < depth config"
  apply (simp add: profileConfigOf_def profileKeyOf_def jsIndex_def profileKeys_def
      PROFILE_LIBRARY_def split: option.splits)
  apply (auto simp add: nth_Cons split: nat.splits)
  done

lemma createCompleteFrame_outer:
  assumes "0 < width config" and "0 < depth config"
  shows "outerFrameSegments (createCompleteFrame widthMm heightMm windowType config)
     = createFrameFromProfile widthMm heightMm (width config) (depth config)"
  using assms by (simp add: createCompleteFrame_def Let_def orDefault_def)

lemma createFrameFromProfile_shapes:
  "map shape (createFrameFromProfile widthMm heightMm pw pd)
     = replicate 4 (createLShapeProfileCrossSection pw pd)"
  by (simp add: createFrameFromProfile_def Let_def numeral_eq_Suc)

lemma createLShape_points:
  "createLShapeProfileCrossSection pw pd
     = [(0, 0), (pw * mm, 0), (pw * mm, pd * mm - pd * mm * 0.3),
        (pw * mm - pw * mm * 0.3, pd * mm - pd * mm * 0.3),
        (pw * mm - pw * mm * 0.3, pd * mm), (0, pd * mm), (0, 0)]"
  by (simp add: createLShapeProfileCrossSection_def Let_def)

lemma createSashFrame_shapes:
  assumes "0 < width config" and "0 < depth config"
  shows "map shape (createSashFrame ow oh config)
     = replicate 4 (createSteppedSashProfileCrossSection (width config) (depth config * 0.9))"
  using assms by (simp add: createSashFrame_def Let_def numeral_eq_Suc orDefault_def)

lemma createStepped_length:
  "length (createSteppedSashProfileCrossSection tw td) = 9"
  by (simp add: createSteppedSashProfileCrossSection_def Let_def)

lemma createCompleteFrame_sashes:
  "sashFrameSegments (createCompleteFrame widthMm heightMm windowType config)
     = replicate windowType
         (createSashFrame
            (((widthMm * mm - orDefault (width config) 60 * mm * 2) / real windowType) / mm)
            ((heightMm * mm - orDefault (width config) 60 * mm * 2) / mm) config)"
  by (auto simp add: createCompleteFrame_def Let_def map_replicate_const)

lemma createSashFrame_lengths:
  assumes "0 < width config"
  shows "map extrudeDepth (createSashFrame (x / mm) (y / mm) config)
     = [x - SASH_CLEARANCE - 2 * (width config * mm * 0.7),
        x - SASH_CLEARANCE - 2 * (width config * mm * 0.7),
        y - SASH_CLEARANCE, y - SASH_CLEARANCE]"
  using assms by (simp add: createSashFrame_def Let_def orDefault_def mm_def)

lemma glass_panes_depth:
  assumes "pane \<in> set (createGlassPanes widthMm heightMm paneCount config t cs)"
  shows "boxDepth pane = t * mm \<and> boxTranslation pane = (0, 0, calculateGlassZPosition config t)"
  using assms by (auto simp add: createGlassPanes_def Let_def split: if_splits)

lemma pfostenNeeds_openingConfigs:
  "\<exists>needs. pfostenNeeds windowType (openingConfigs windowType s1 s2 s3) p1 p2 = Inr needs
     \<and> length needs = windowType - 1"
  by (simp add: pfostenNeeds_def openingConfigs_def)

lemma model_produced:
  assumes "0 < width config" and "0 < depth config"
  shows "(let frame = createCompleteFrame widthMm heightMm windowType config;
              configs = openingConfigs windowType s1 s2 s3;
              panes = createGlassPanes widthMm heightMm windowType config 24 (Some configs);
              pw = width config * mm;
              pd = depth config * mm;
              sashWidth = (widthMm * mm - pw * 2) / real windowType;
              innerHeight = heightMm * mm - pw * 2;
              spw = pw * 0.7
          in map extrudeDepth (outerFrameSegments frame)
               = [widthMm * mm - 2 * pw, widthMm * mm - 2 * pw, heightMm * mm, heightMm * mm]
           \<and> map shape (outerFrameSegments frame)
               = replicate 4
                   [(0, 0), (pw, 0), (pw, pd - pd * 0.3), (pw - pw * 0.3, pd - pd * 0.3),
                    (pw - pw * 0.3, pd), (0, pd), (0, 0)]
           \<and> length (sashFrameSegments frame) = windowType
           \<and> (\<forall>sash \<in> set (sashFrameSegments frame).
                 map extrudeDepth sash
                   = [sashWidth - SASH_CLEARANCE - 2 * spw, sashWidth - SASH_CLEARANCE - 2 * spw,
                      innerHeight - SASH_CLEARANCE, innerHeight - SASH_CLEARANCE]
                 \<and> map shape sash
                   = replicate 4
                       (createSteppedSashProfileCrossSection (width config) (depth config * 0.9))
                 \<and> length (createSteppedSashProfileCrossSection (width config)
                              (depth config * 0.9)) = 9)
           \<and> length panes = windowType
           \<and> (\<forall>pane \<in> set panes.
                 boxDepth pane = 24 * mm
                 \<and> boxTranslation pane = (0, 0, calculateGlassZPosition config 24))
           \<and> (\<exists>needs. pfostenNeeds windowType configs pfosten1Choice pfosten2Choice = Inr needs
                 \<and> length needs = windowType - 1))"
proof -
  have o: "orDefault (width config) 60 = width config" using assms by (simp add: orDefault_def)
  have 1: "map extrudeDepth (outerFrameSegments
        (createCompleteFrame widthMm heightMm windowType config))
      = [widthMm * mm - 2 * (width config * mm), widthMm * mm - 2 * (width config * mm),
         heightMm * mm, heightMm * mm]"
    by (simp add: createCompleteFrame_outer [OF assms] ring_lengths)
  have 2: "map shape (outerFrameSegments
        (createCompleteFrame widthMm heightMm windowType config))
      = replicate 4
          [(0, 0), (width config * mm, 0),
           (width config * mm, depth config * mm - depth config * mm * 0.3),
           (width config * mm - width config * mm * 0.3,
            depth config * mm - depth config * mm * 0.3),
           (width config * mm - width config * mm * 0.3, depth config * mm),
           (0, depth config * mm), (0, 0)]"
    by (simp only: createCompleteFrame_outer [OF assms] createFrameFromProfile_shapes
        createLShape_points)
  have 3: "length (sashFrameSegments (createCompleteFrame widthMm heightMm windowType config))
      = windowType"
    by (simp add: createCompleteFrame_sashes)
  have 4: "map extrudeDepth sash
        = [(widthMm * mm - width config * mm * 2) / real windowType - SASH_CLEARANCE
             - 2 * (width config * mm * 0.7),
           (widthMm * mm - width config * mm * 2) / real windowType - SASH_CLEARANCE
             - 2 * (width config * mm * 0.7),
           heightMm * mm - width config * mm * 2 - SASH_CLEARANCE,
           heightMm * mm - width config * mm * 2 - SASH_CLEARANCE]
      \<and> map shape sash
        = replicate 4
            (createSteppedSashProfileCrossSection (width config) (depth config * 0.9))
      \<and> length (createSteppedSashProfileCrossSection (width config) (depth config * 0.9)) = 9"
    if "sash \<in> set (sashFrameSegments (createCompleteFrame widthMm heightMm windowType config))"
    for sash
  proof -
    from that have "sash = createSashFrame
            (((widthMm * mm - width config * mm * 2) / real windowType) / mm)
            ((heightMm * mm - width config * mm * 2) / mm) config"
      by (simp add: createCompleteFrame_sashes o)
    then show ?thesis
      by (simp only: createSashFrame_lengths [OF assms(1)] createSashFrame_shapes [OF assms]
          createStepped_length)
  qed
  have 5: "length (createGlassPanes widthMm heightMm windowType config 24
        (Some (openingConfigs windowType s1 s2 s3))) = windowType"
    by (simp add: createGlassPanes_length)
  show ?thesis
    unfolding Let_def
    using 1 2 3 4 5 glass_panes_depth pfostenNeeds_openingConfigs
    by (simp add: mult.assoc)
qed

text \<open>
  C8. A profile choice that is not one of the four indices of the library (also
  \<open>NaN\<close>) resolves to the entry \<open>modern-slim\<close>, and every profile choice resolves to
  an entry of the library with positive width and depth. A sash choice that is not one
  of the six opening kinds (also \<open>NaN\<close> or a missing choice) resolves to \<open>fixed\<close>,
  while a mapped choice of any sash keeps its kind. In every case the rest of the model
  is produced from the resolved values: the four outer frame segments with the L-shaped
  cross-section and the lengths of the ring for the resolved profile, one sash frame per
  sash with four segments of the stepped cross-section and the lengths of the sash
  ring, one glass pane per sash of the glazing thickness at the glass depth position,
  and the mullion requirements for every boundary (no error).
\<close>

theorem unmapped_choices_fall_back:
  "(\<exists>config. profileConfigOf profileChoice = Some config
       \<and> 0 < width config \<and> 0 < depth config
       \<and> (profileChoice = None \<or> (\<exists>k. profileChoice = Some k \<and> (k < 1 \<or> 4 < k))
            \<longrightarrow> config = \<lparr>profileKey = ''modern-slim'', width = 60, depth = 70,
                            glassRebateDepth = 18, sightline = 35\<rparr>)
       \<and> (let frame = createCompleteFrame widthMm heightMm windowType config;
              configs = openingConfigs windowType s1 s2 s3;
              panes = createGlassPanes widthMm heightMm windowType config 24 (Some configs);
              pw = width config * mm;
              pd = depth config * mm;
              sashWidth = (widthMm * mm - pw * 2) / real windowType;
              innerHeight = heightMm * mm - pw * 2;
              spw = pw * 0.7
          in map extrudeDepth (outerFrameSegments frame)
               = [widthMm * mm - 2 * pw, widthMm * mm - 2 * pw, heightMm * mm, heightMm * mm]
           \<and> map shape (outerFrameSegments frame)
               = replicate 4
                   [(0, 0), (pw, 0), (pw, pd - pd * 0.3), (pw - pw * 0.3, pd - pd * 0.3),
                    (pw - pw * 0.3, pd), (0, pd), (0, 0)]
           \<and> length (sashFrameSegments frame) = windowType
           \<and> (\<forall>sash \<in> set (sashFrameSegments frame).
                 map extrudeDepth sash
                   = [sashWidth - SASH_CLEARANCE - 2 * spw, sashWidth - SASH_CLEARANCE - 2 * spw,
                      innerHeight - SASH_CLEARANCE, innerHeight - SASH_CLEARANCE]
                 \<and> map shape sash
                   = replicate 4
                       (createSteppedSashProfileCrossSection (width config) (depth config * 0.9))
                 \<and> length (createSteppedSashProfileCrossSection (width config)
                              (depth config * 0.9)) = 9)
           \<and> length panes = windowType
           \<and> (\<forall>pane \<in> set panes.
                 boxDepth pane = 24 * mm
                 \<and> boxTranslation pane = (0, 0, calculateGlassZPosition config 24))
           \<and> (\<exists>needs. pfostenNeeds windowType configs pfosten1Choice pfosten2Choice = Inr needs
                 \<and> length needs = windowType - 1)))
   \<and> length (openingConfigs windowType s1 s2 s3) = windowType
   \<and> (\<forall>i < windowType.
        (let choice = (if i < 3 then [s1, s2, s3] ! i else None)
         in (choice = None \<or> (\<exists>k. choice = Some k \<and> (k < 1 \<or> 6 < k))
               \<longrightarrow> openingConfigs windowType s1 s2 s3 ! i = Fixed)
          \<and> (\<forall>k. choice = Some k \<and> 1 \<le> k \<and> k \<le> 6
               \<longrightarrow> openingConfigs windowType s1 s2 s3 ! i = openingTypes ! nat (k - 1))))"
proof -
  obtain config where c: "profileConfigOf profileChoice = Some config"
    and w: "0 < width config" and d: "0 < depth config"
    using profileConfigOf_library by blast
  have u: "profileChoice = None \<or> (\<exists>k. profileChoice = Some k \<and> (k < 1 \<or> 4 < k))
        \<longrightarrow> config = \<lparr>profileKey = ''modern-slim'', width = 60, depth = 70,
                        glassRebateDepth = 18, sightline = 35\<rparr>"
    using c by (auto simp add: profileConfigOf_def profileKeyOf_unmapped PROFILE_LIBRARY_def)
  note m = model_produced [OF w d, of widthMm heightMm windowType s1 s2 s3
      pfosten1Choice pfosten2Choice]
  have 3: "length (openingConfigs windowType s1 s2 s3) = windowType"
    by (simp add: openingConfigs_def)
  have 4: "(let choice = (if i < 3 then [s1, s2, s3] ! i else None)
         in (choice = None \<or> (\<exists>k. choice = Some k \<and> (k < 1 \<or> 6 < k))
               \<longrightarrow> openingConfigs windowType s1 s2 s3 ! i = Fixed)
          \<and> (\<forall>k. choice = Some k \<and> 1 \<le> k \<and> k \<le> 6
               \<longrightarrow> openingConfigs windowType s1 s2 s3 ! i = openingTypes ! nat (k - 1)))"
    if "i < windowType" for i
    unfolding Let_def openingConfigs_nth [OF that]
    by (auto simp add: jsIndex_def openingTypes_def)
  show ?thesis
    apply (intro conjI allI impI)
      apply (rule exI [of _ config])
      apply (intro conjI c w d u m)
     apply (rule 3)
    apply (erule 4)
    done
qed

theorem unmapped_choices_fall_back_witness:
  "profileConfigOf (Some 7)
     = Some \<lparr>profileKey = ''modern-slim'', width = 60, depth = 70,
             glassRebateDepth = 18, sightline = 35\<rparr>
   \<and> map extrudeDepth (outerFrameSegments (createCompleteFrame 1000 1200 2
        \<lparr>profileKey = ''modern-slim'', width = 60, depth = 70,
         glassRebateDepth = 18, sightline = 35\<rparr>)) = [0.88, 0.88, 1.2, 1.2]
   \<and> length (openingConfigs 2 (Some 9) (Some 3) None) = 2
   \<and> openingConfigs 2 (Some 9) (Some 3) None ! 0 = Fixed"
proof -
  let ?cfg = "\<lparr>profileKey = ''modern-slim'', width = 60, depth = 70,
         glassRebateDepth = 18, sightline = 35\<rparr>"
  note t = unmapped_choices_fall_back
    [of "Some 7" 1000 1200 2 "Some 9" "Some 3" None 0 0]
  have "\<exists>config. profileConfigOf (Some 7) = Some config
      \<and> (Some (7::int) = None \<or> (\<exists>k. Some (7::int) = Some k \<and> (k < 1 \<or> 4 < k))
            \<longrightarrow> config = ?cfg)
      \<and> map extrudeDepth (outerFrameSegments (createCompleteFrame 1000 1200 2 config))
           = [1000 * mm - 2 * (width config * mm), 1000 * mm - 2 * (width config * mm),
              1200 * mm, 1200 * mm]"
    using t [THEN conjunct1, unfolded Let_def]
    apply (elim exE conjE)
    apply (rule exI)
    apply (intro conjI)
      apply assumption
     apply assumption
    apply assumption
    done
  then obtain config where x: "profileConfigOf (Some 7) = Some config
      \<and> (Some (7::int) = None \<or> (\<exists>k. Some (7::int) = Some k \<and> (k < 1 \<or> 4 < k))
            \<longrightarrow> config = ?cfg)
      \<and> map extrudeDepth (outerFrameSegments (createCompleteFrame 1000 1200 2 config))
           = [1000 * mm - 2 * (width config * mm), 1000 * mm - 2 * (width config * mm),
              1200 * mm, 1200 * mm]"
    ..
  note c = x [THEN conjunct1]
    and u = x [THEN conjunct2, THEN conjunct1]
    and e = x [THEN conjunct2, THEN conjunct2]
  from u have cfg: "config = ?cfg" by simp
  have a: "profileConfigOf (Some 7) = Some ?cfg" using c cfg by simp
  have e': "map extrudeDepth (outerFrameSegments (createCompleteFrame 1000 1200 2 ?cfg))
              = [0.88, 0.88, 1.2, 1.2]"
    using e unfolding cfg by (simp add: mm_def)
  have b: "length (openingConfigs 2 (Some 9) (Some 3) None) = 2"
    by (rule t [THEN conjunct2, THEN conjunct1])
  have i: "(0::nat) < 2" by simp
  from t [THEN conjunct2, THEN conjunct2, rule_format, OF i]
  have c0: "openingConfigs 2 (Some 9) (Some 3) None ! 0 = Fixed"
    by (simp add: Let_def)
  show ?thesis by (intro conjI a e' b c0)
qed

section \<open>Properties of the glass panes\<close>

lemma createGlassPanes_nth:
  assumes "i < paneCount"
  shows "createGlassPanes widthMm heightMm paneCount profileConfig t (Some cs) ! i
    = (let outerFw = orDefault (width profileConfig) 60 * mm;
           sashFw = outerFw * 0.7;
           innerWidth = widthMm * mm - outerFw * 2;
           innerHeight = heightMm * mm - outerFw * 2;
           sashWidth = innerWidth / real paneCount;
           isFixed = (i < length cs \<and> cs ! i = Fixed)
       in \<lparr>boxWidth = (if isFixed then sashWidth else sashWidth - sashFw * 2),
            boxHeight = (if isFixed then innerHeight else innerHeight - sashFw * 2),
            boxDepth = t * mm,
            boxTranslation = (0, 0, calculateGlassZPosition profileConfig t)\<rparr>)"
  using assms by (auto simp add: createGlassPanes_def Let_def)

text \<open>
  C10. For pane \<open>i\<close> of a window whose profile width is positive: if its opening kind is
  fixed, the glass pane built by \<open>createGlassPanes\<close> and the glass size used when
  rendering the sash are the whole sash opening (the inner width divided by the pane
  count, and the inner height), and no sash frame group is rendered; if it is operable,
  both are reduced by twice the sash profile width (70 per cent of the profile width) on
  each axis, and the sash frame group with its four segments is rendered.
\<close>

theorem fixed_pane_fills_opening:
  assumes "i < paneCount" and "length configs = paneCount" and "0 < width profileConfig"
  shows "(let panes = createGlassPanes (widthCm * 10) (heightCm * 10) paneCount profileConfig
                        glassThicknessMm (Some configs);
              sashFw = width profileConfig * mm * 0.7;
              innerWidth = widthCm * 10 * mm - 2 * (width profileConfig * mm);
              innerHeight = heightCm * 10 * mm - 2 * (width profileConfig * mm);
              sashWidth = innerWidth / real paneCount;
              rendered = renderSash widthCm heightCm paneCount profileConfig configs i
          in (configs ! i = Fixed \<longrightarrow>
                boxWidth (panes ! i) = sashWidth \<and> boxHeight (panes ! i) = innerHeight
                \<and> renderedGlassWidth rendered = sashWidth
                \<and> renderedGlassHeight rendered = innerHeight
                \<and> sashFrameGroup rendered = None)
           \<and> (configs ! i \<noteq> Fixed \<longrightarrow>
                boxWidth (panes ! i) = sashWidth - 2 * sashFw
                \<and> boxHeight (panes ! i) = innerHeight - 2 * sashFw
                \<and> renderedGlassWidth rendered = sashWidth - 2 * sashFw
                \<and> renderedGlassHeight rendered = innerHeight - 2 * sashFw
                \<and> (\<exists>segments. sashFrameGroup rendered = Some segments
                      \<and> map fst segments = [Bottom, Top, Left, Right])))"
  using assms
  by (auto simp add: createGlassPanes_nth renderSash_def Let_def orDefault_def
      segmentOrder_def mult_ac)

theorem fixed_pane_fills_opening_witness:
  "(0::nat) < 2 \<and> length [Fixed, Kipp] = 2
   \<and> 0 < width \<lparr>profileKey = ''modern-slim'', width = 60, depth = 70,
                 glassRebateDepth = 18, sightline = 35\<rparr>
   \<and> boxWidth (createGlassPanes (100 * 10) (120 * 10) 2
        \<lparr>profileKey = ''modern-slim'', width = 60, depth = 70,
         glassRebateDepth = 18, sightline = 35\<rparr> 24 (Some [Fixed, Kipp]) ! 0) = 0.44
   \<and> sashFrameGroup (renderSash 100 120 2
        \<lparr>profileKey = ''modern-slim'', width = 60, depth = 70,
         glassRebateDepth = 18, sightline = 35\<rparr> [Fixed, Kipp] 0) = None"
proof -
  let ?cfg = "\<lparr>profileKey = ''modern-slim'', width = 60, depth = 70,
         glassRebateDepth = 18, sightline = 35\<rparr>"
  have h1: "(0::nat) < 2" by simp
  have h2: "length [Fixed, Kipp] = 2" by simp
  have h3: "0 < width ?cfg" by simp
  from fixed_pane_fills_opening [OF h1 h2 h3, of 100 120 24]
  have "boxWidth (createGlassPanes (100 * 10) (120 * 10) 2 ?cfg 24 (Some [Fixed, Kipp]) ! 0)
          = 0.44
      \<and> sashFrameGroup (renderSash 100 120 2 ?cfg [Fixed, Kipp] 0) = None"
    by (simp add: Let_def mm_def)
  then show ?thesis using h1 h2 h3 by blast
qed

end
